theory Spec2Isabelle
  imports Complex_Main "HOL-Library.Log_Nat"
begin

section \<open>JavaScript values\<close>

text \<open>
  The telemetry services are TypeScript. A JavaScript number is an IEEE 754 double:
  \<open>NaN\<close>, an infinity, or a finite double, which \<open>Fin\<close> carries as the real
  number it denotes. The model has one zero; the sign of a zero is not kept. The fields
  of a DynamoDB record that the interface leaves as \<open>any\<close> hold a scalar
  \<open>jsval\<close>; a property that is absent reads as \<open>JUndefined\<close>, as it does in
  JavaScript.
\<close>

datatype number = NaN | NegInf | Fin real | PosInf

datatype jsval = JUndefined | JNull | JBool bool | JNumber number | JString string

text \<open>
  The conversions between strings and numbers belong to the JavaScript engine, not to
  the repository. They are parameters of the model: \<open>parseFloat\<close> and
  \<open>stringToNumber\<close> (the \<open>ToNumber\<close> of a string), and \<open>formatNumber\<close>, the
  \<open>Number::toString\<close> of a number that is not an integer of magnitude up to
  \<open>2^53\<close>.
\<close>

record runtime =
  parseFloat :: "string \<Rightarrow> number"
  stringToNumber :: "string \<Rightarrow> number"
  formatNumber :: "real \<Rightarrow> string"

fun truthy :: "jsval \<Rightarrow> bool" where
  "truthy JUndefined = False"
| "truthy JNull = False"
| "truthy (JBool b) = b"
| "truthy (JNumber NaN) = False"
| "truthy (JNumber (Fin r)) = (r \<noteq> 0)"
| "truthy (JNumber NegInf) = True"
| "truthy (JNumber PosInf) = True"
| "truthy (JString s) = (s \<noteq> [])"

fun toNumber :: "runtime \<Rightarrow> jsval \<Rightarrow> number" where
  "toNumber rt JUndefined = NaN"
| "toNumber rt JNull = Fin 0"
| "toNumber rt (JBool b) = Fin (if b then 1 else 0)"
| "toNumber rt (JNumber n) = n"
| "toNumber rt (JString s) = stringToNumber rt s"

subsection \<open>Rounding to a double\<close>

text \<open>
  \<open>ilog2 x\<close> is the binary exponent of a positive \<open>x\<close>: the \<open>e\<close> with
  \<open>2^e \<le> x < 2^(e+1)\<close>. \<open>roundEven\<close> rounds to the nearest integer, a tie to
  the even one. \<open>toDouble x\<close> is the double nearest to \<open>x\<close>, ties to even: the
  doubles of binary exponent \<open>e\<close> are the multiples of \<open>2^(e-52)\<close>, those below
  \<open>2^-1022\<close> the multiples of \<open>2^-1074\<close>, and a value that rounds to \<open>2^1024\<close>
  or more becomes an infinity. It is the value of a numeric literal and the result
  of every arithmetic operation on finite operands.
\<close>

definition ilog2 :: "real \<Rightarrow> int" where
  "ilog2 x = (if 1 \<le> x then bitlen \<lfloor>x\<rfloor> - 1 else - bitlen (\<lceil>1 / x\<rceil> - 1))"

definition roundEven :: "real \<Rightarrow> int" where
  "roundEven y =
     (if y - of_int \<lfloor>y\<rfloor> < 1 / 2 then \<lfloor>y\<rfloor>
      else if 1 / 2 < y - of_int \<lfloor>y\<rfloor> then \<lfloor>y\<rfloor> + 1
      else if even \<lfloor>y\<rfloor> then \<lfloor>y\<rfloor> else \<lfloor>y\<rfloor> + 1)"

definition toDouble :: "real \<Rightarrow> number" where
  "toDouble x =
     (if x = 0 then Fin 0
      else let e = ilog2 \<bar>x\<bar>;
               q = 2 powi (max e (- 1022) - 52);
               m = roundEven (\<bar>x\<bar> / q)
           in if 1024 \<le> e \<or> (e = 1023 \<and> m = 2 ^ 53)
              then (if x < 0 then NegInf else PosInf)
              else Fin (sgn x * of_int m * q))"

subsection \<open>Arithmetic\<close>

text \<open>
  \<open>Math.min\<close> and \<open>Math.max\<close> return \<open>NaN\<close> when an argument is \<open>NaN\<close>
  and one of their arguments otherwise.
\<close>

fun Math_min :: "number \<Rightarrow> number \<Rightarrow> number" where
  "Math_min NaN _ = NaN"
| "Math_min _ NaN = NaN"
| "Math_min NegInf _ = NegInf"
| "Math_min _ NegInf = NegInf"
| "Math_min PosInf b = b"
| "Math_min a PosInf = a"
| "Math_min (Fin a) (Fin b) = Fin (min a b)"

fun Math_max :: "number \<Rightarrow> number \<Rightarrow> number" where
  "Math_max NaN _ = NaN"
| "Math_max _ NaN = NaN"
| "Math_max PosInf _ = PosInf"
| "Math_max _ PosInf = PosInf"
| "Math_max NegInf b = b"
| "Math_max a NegInf = a"
| "Math_max (Fin a) (Fin b) = Fin (max a b)"

text \<open>
  The operators \<open>-\<close>, \<open>*\<close> and \<open>/\<close>: the exact result of finite operands is
  rounded to a double; the infinities and \<open>NaN\<close> follow IEEE 754. A zero divisor
  is the positive zero.
\<close>

fun js_sub :: "number \<Rightarrow> number \<Rightarrow> number" where
  "js_sub (Fin a) (Fin b) = toDouble (a - b)"
| "js_sub NaN _ = NaN"
| "js_sub _ NaN = NaN"
| "js_sub PosInf PosInf = NaN"
| "js_sub NegInf NegInf = NaN"
| "js_sub PosInf _ = PosInf"
| "js_sub NegInf _ = NegInf"
| "js_sub _ PosInf = NegInf"
| "js_sub _ NegInf = PosInf"

fun js_mul :: "number \<Rightarrow> number \<Rightarrow> number" where
  "js_mul (Fin a) (Fin b) = toDouble (a * b)"
| "js_mul NaN _ = NaN"
| "js_mul _ NaN = NaN"
| "js_mul PosInf (Fin b) = (if b = 0 then NaN else if 0 < b then PosInf else NegInf)"
| "js_mul NegInf (Fin b) = (if b = 0 then NaN else if 0 < b then NegInf else PosInf)"
| "js_mul (Fin a) PosInf = (if a = 0 then NaN else if 0 < a then PosInf else NegInf)"
| "js_mul (Fin a) NegInf = (if a = 0 then NaN else if 0 < a then NegInf else PosInf)"
| "js_mul PosInf PosInf = PosInf"
| "js_mul PosInf NegInf = NegInf"
| "js_mul NegInf PosInf = NegInf"
| "js_mul NegInf NegInf = PosInf"

fun js_div :: "number \<Rightarrow> number \<Rightarrow> number" where
  "js_div (Fin a) (Fin b) =
     (if b = 0 then (if a = 0 then NaN else if 0 < a then PosInf else NegInf)
      else toDouble (a / b))"
| "js_div NaN _ = NaN"
| "js_div _ NaN = NaN"
| "js_div PosInf (Fin b) = (if 0 \<le> b then PosInf else NegInf)"
| "js_div NegInf (Fin b) = (if 0 \<le> b then NegInf else PosInf)"
| "js_div (Fin a) _ = Fin 0"
| "js_div _ _ = NaN"

text \<open>\<open>a ?? b\<close>: the right operand when the left one is \<open>undefined\<close> or \<open>null\<close>.\<close>

fun nullish :: "jsval \<Rightarrow> jsval \<Rightarrow> jsval" where
  "nullish JUndefined d = d"
| "nullish JNull d = d"
| "nullish v d = v"

text \<open>\<open>a || d\<close> on an optional number: zero and a missing value are falsy.\<close>

fun number_or :: "real option \<Rightarrow> real \<Rightarrow> real" where
  "number_or None d = d"
| "number_or (Some t) d = (if t \<noteq> 0 then t else d)"

subsection \<open>Printing a number\<close>

function showNat :: "nat \<Rightarrow> string" where
  "showNat n =
     (if n < 10 then [''0123456789'' ! n]
      else showNat (n div 10) @ [''0123456789'' ! (n mod 10)])"
  by pat_completeness auto
termination
  by (relation "measure id") auto

declare showNat.simps [simp del]

text \<open>
  \<open>Number::toString\<close> prints the shortest decimal that reads back as the same
  double. For an integer of magnitude up to \<open>2^53\<close> these are its exact digits; every
  other number is left to \<open>formatNumber\<close>.
\<close>

definition numberToString :: "runtime \<Rightarrow> real \<Rightarrow> string" where
  "numberToString rt r =
     (if r = of_int \<lfloor>r\<rfloor> \<and> \<bar>r\<bar> \<le> 2 ^ 53
      then (if r < 0 then ''-'' @ showNat (nat (- \<lfloor>r\<rfloor>)) else showNat (nat \<lfloor>r\<rfloor>))
      else formatNumber rt r)"

fun showNumber :: "runtime \<Rightarrow> number \<Rightarrow> string" where
  "showNumber rt NaN = ''NaN''"
| "showNumber rt NegInf = ''-Infinity''"
| "showNumber rt PosInf = ''Infinity''"
| "showNumber rt (Fin r) = numberToString rt r"

section \<open>The data model\<close>

text \<open>
  \<open>DynamoDBTelemetryItem\<close> of \<open>services/dynamodb.ts\<close>. The interface declares the
  timestamps and \<open>sysid\<close> as numbers and the payload's \<open>type\<close> as a string; the code
  reads each of them defensively (\<open>item.data?.timestamp || item.timestamp || 0\<close>), so
  each may be missing. \<open>messageId\<close> and \<open>compid\<close> are never read and are left out.
  \<open>item_type\<close> is a top-level \<open>type\<close> property, which the interface does not
  declare and \<open>getLatestTelemetry\<close> reads through \<open>item.data || item\<close>.
  \<open>mode\<close> is the numeric flight mode that indexes the \<open>Record<number, string>\<close>
  table; \<open>None\<close> is a mode that is \<open>undefined\<close> or \<open>null\<close>.
\<close>

record payload =
  data_type :: "string option"
  data_timestamp :: "real option"
  remaining :: jsval
  voltage :: jsval
  relative :: jsval
  amsl :: jsval
  data_armed :: jsval
  mode :: "number option"

record DynamoDBTelemetryItem =
  item_timestamp :: "real option"
  sysid :: "real option"
  item_type :: "string option"
  data :: "payload option"

text \<open>
  \<open>Telemetry\<close> of \<open>types/telemetry.ts\<close>, as the object literal that
  \<open>transformMavlinkToTelemetry\<close> returns fills it. \<open>alt\<close> is whatever the altitude
  fragment carried when that was not a string. \<open>hasStateData\<close> is the property the
  dashboard components read (\<open>telemetry.hasStateData === true\<close>); \<open>None\<close> is an
  object without it. \<open>groundSpeed\<close> and \<open>distanceFromHome\<close> are the interface's
  optional properties.
\<close>

record Position =
  lat :: real
  lon :: real
  alt :: jsval

record Velocity =
  vx :: real
  vy :: real
  vz :: real

record Attitude =
  roll :: real
  pitch :: real
  yaw :: real

record Telemetry =
  droneId :: string
  timestamp :: real
  position :: Position
  velocity :: Velocity
  attitude :: Attitude
  battery :: number
  flightMode :: string
  armed :: bool
  groundSpeed :: "real option"
  distanceFromHome :: "real option"
  hasStateData :: "bool option"

section \<open>The fusion: \<open>transformMavlinkToTelemetry\<close>\<close>

text \<open>\<open>items.find(item => item.data?.type === kind)?.data\<close>\<close>

definition hasType :: "string \<Rightarrow> DynamoDBTelemetryItem \<Rightarrow> bool" where
  "hasType kind item =
     (case data item of None \<Rightarrow> False | Some d \<Rightarrow> data_type d = Some kind)"

definition findData :: "string \<Rightarrow> DynamoDBTelemetryItem list \<Rightarrow> payload option" where
  "findData kind items =
     (case find (hasType kind) items of None \<Rightarrow> None | Some item \<Rightarrow> data item)"

text \<open>\<open>item.data?.timestamp || item.timestamp || 0\<close>\<close>

definition effectiveTimestamp :: "DynamoDBTelemetryItem \<Rightarrow> real" where
  "effectiveTimestamp item =
     number_or (case data item of None \<Rightarrow> None | Some d \<Rightarrow> data_timestamp d)
       (number_or (item_timestamp item) 0)"

text \<open>\<open>Math.max(...timestamps, Date.now())\<close>; \<open>now\<close> is the value of \<open>Date.now()\<close>.\<close>

definition latestTimestamp :: "real \<Rightarrow> DynamoDBTelemetryItem list \<Rightarrow> real" where
  "latestTimestamp now items = fold max (map effectiveTimestamp items) now"

text \<open>\<open>batteryData?.remaining\<close> and the like: a property of a fragment that may be missing.\<close>

definition field :: "(payload \<Rightarrow> jsval) \<Rightarrow> payload option \<Rightarrow> jsval" where
  "field f d = (case d of None \<Rightarrow> JUndefined | Some p \<Rightarrow> f p)"

text \<open>
  The battery estimate. The literal \<open>4.2\<close> is not a double; it denotes the nearest
  one, \<open>toDouble 4.2\<close>. The literals 12, 100 and 0 are doubles.
\<close>

definition batteryPercent :: "runtime \<Rightarrow> payload option \<Rightarrow> jsval" where
  "batteryPercent rt batteryData =
     (let batteryRemaining = field remaining batteryData;
          batteryVoltage = field voltage batteryData
      in if batteryRemaining \<noteq> JUndefined then batteryRemaining
         else if truthy batteryVoltage
           then JNumber (Math_max (Fin 0) (Math_min (Fin 100)
                  (js_mul (js_div (js_sub (toNumber rt batteryVoltage) (Fin 12))
                             (toDouble 4.2))
                     (Fin 100))))
           else JNumber (Fin 100))"

definition altitude :: "runtime \<Rightarrow> payload option \<Rightarrow> jsval" where
  "altitude rt altitudeData =
     (let relativeAlt = field relative altitudeData;
          amslAlt = field amsl altitudeData
      in if relativeAlt \<noteq> JUndefined
         then (case relativeAlt of JString s \<Rightarrow> JNumber (parseFloat rt s) | v \<Rightarrow> v)
         else if amslAlt \<noteq> JUndefined
           then (case amslAlt of JString s \<Rightarrow> JNumber (parseFloat rt s) | v \<Rightarrow> v)
           else JNumber (Fin 0))"

text \<open>The table \<open>modeMap\<close>; its keys are the integers 0 to 10.\<close>

definition modeMap :: "number \<Rightarrow> string option" where
  "modeMap m =
     (if m = Fin 0 then Some ''STABILIZE''
      else if m = Fin 1 then Some ''ACRO''
      else if m = Fin 2 then Some ''ALT_HOLD''
      else if m = Fin 3 then Some ''AUTO''
      else if m = Fin 4 then Some ''GUIDED''
      else if m = Fin 5 then Some ''LOITER''
      else if m = Fin 6 then Some ''RTL''
      else if m = Fin 7 then Some ''CIRCLE''
      else if m = Fin 8 then Some ''LAND''
      else if m = Fin 9 then Some ''OF_LOITER''
      else if m = Fin 10 then Some ''TAKEOFF''
      else None)"

text \<open>
  \<open>const mode = stateData?.mode ?? 0\<close> and
  \<open>modeMap[mode] || `MODE_${mode}`\<close>; every name of the table is truthy.
\<close>

definition flightModeOf :: "runtime \<Rightarrow> payload option \<Rightarrow> string" where
  "flightModeOf rt stateData =
     (let mode = (case stateData of None \<Rightarrow> Fin 0
                  | Some d \<Rightarrow> (case mode d of None \<Rightarrow> Fin 0 | Some m \<Rightarrow> m))
      in case modeMap mode of Some name \<Rightarrow> name
         | None \<Rightarrow> ''MODE_'' @ showNumber rt mode)"

text \<open>\<open>`drone-${items[0]?.sysid || 1}`\<close>\<close>

definition droneIdOf :: "runtime \<Rightarrow> DynamoDBTelemetryItem list \<Rightarrow> string" where
  "droneIdOf rt items =
     ''drone-'' @ numberToString rt
        (number_or (case items of [] \<Rightarrow> None | item # _ \<Rightarrow> sysid item) 1)"

definition defaultLat :: real where
  "defaultLat = 37.7749"

definition defaultLon :: real where
  "defaultLon = - 122.4194"

definition transformMavlinkToTelemetry ::
    "runtime \<Rightarrow> real \<Rightarrow> DynamoDBTelemetryItem list \<Rightarrow> Telemetry" where
  "transformMavlinkToTelemetry rt now items =
     (let batteryData = findData ''battery'' items;
          altitudeData = findData ''altitude'' items;
          stateData = findData ''state'' items
      in \<lparr> droneId = droneIdOf rt items,
           timestamp = latestTimestamp now items,
           position = \<lparr> lat = defaultLat, lon = defaultLon, alt = altitude rt altitudeData \<rparr>,
           velocity = \<lparr> vx = 0, vy = 0, vz = 0 \<rparr>,
           attitude = \<lparr> roll = 0, pitch = 0, yaw = 0 \<rparr>,
           battery = Math_max (Fin 0) (Math_min (Fin 100)
                       (toNumber rt (batteryPercent rt batteryData))),
           flightMode = flightModeOf rt stateData,
           armed = truthy (nullish (field data_armed stateData) (JBool False)),
           groundSpeed = None,
           distanceFromHome = None,
           hasStateData = None \<rparr>)"

section \<open>Promises and errors\<close>

text \<open>
  A thrown value is an instance of \<open>Error\<close> with its message, or something else. An
  awaited promise has settled: it rejected with a thrown value or resolved with a
  result. An \<open>async\<close> function returns \<open>Inl\<close> when its promise rejects, \<open>Inr\<close>
  when it resolves.
\<close>

datatype js_error = Error string | NonError

datatype 'a promise = Rejected js_error | Resolved 'a

section \<open>The batch-scan adapter: \<open>getLatestTelemetry\<close> of \<open>services/dynamodb.ts\<close>\<close>

record ScanOutput =
  Items :: "DynamoDBTelemetryItem list option"

text \<open>
  \<open>Array.prototype.sort(compareFn)\<close> is stable: an element moves behind a later one
  only when \<open>compareFn\<close> is positive on the pair.
\<close>

fun insertSorted :: "('a \<Rightarrow> 'a \<Rightarrow> real) \<Rightarrow> 'a \<Rightarrow> 'a list \<Rightarrow> 'a list" where
  "insertSorted compareFn x [] = [x]"
| "insertSorted compareFn x (y # ys) =
     (if compareFn x y \<le> 0 then x # y # ys else y # insertSorted compareFn x ys)"

fun Array_sort :: "('a \<Rightarrow> 'a \<Rightarrow> real) \<Rightarrow> 'a list \<Rightarrow> 'a list" where
  "Array_sort compareFn [] = []"
| "Array_sort compareFn (x # xs) = insertSorted compareFn x (Array_sort compareFn xs)"

text \<open>The comparison function of the source: \<open>bTime - aTime\<close>.\<close>

definition compareItems :: "DynamoDBTelemetryItem \<Rightarrow> DynamoDBTelemetryItem \<Rightarrow> real" where
  "compareItems a b = effectiveTimestamp b - effectiveTimestamp a"

text \<open>\<open>const itemData = item.data || item; const type = itemData.type || 'unknown'\<close>\<close>

definition itemKind :: "DynamoDBTelemetryItem \<Rightarrow> string" where
  "itemKind item =
     (case (case data item of Some d \<Rightarrow> data_type d | None \<Rightarrow> item_type item) of
        None \<Rightarrow> ''unknown''
      | Some t \<Rightarrow> if t \<noteq> [] then t else ''unknown'')"

text \<open>
  The \<open>Map\<close> \<open>latestByType\<close> is a list of entries in insertion order; \<open>has\<close> is
  \<open>Map.prototype.has\<close>. The loop runs over the sorted items and breaks once the three
  main kinds are present.
\<close>

definition has :: "(string \<times> 'a) list \<Rightarrow> string \<Rightarrow> bool" where
  "has m k = (map_of m k \<noteq> None)"

text \<open>\<open>if (!latestByType.has(type)) latestByType.set(type, item)\<close>\<close>

definition keepLatest ::
    "(string \<times> DynamoDBTelemetryItem) list \<Rightarrow> DynamoDBTelemetryItem
      \<Rightarrow> (string \<times> DynamoDBTelemetryItem) list" where
  "keepLatest m item =
     (if \<not> has m (itemKind item) then m @ [(itemKind item, item)] else m)"

definition hasMainTypes :: "(string \<times> DynamoDBTelemetryItem) list \<Rightarrow> bool" where
  "hasMainTypes m = (has m ''battery'' \<and> has m ''altitude'' \<and> has m ''state'')"

fun latestByType ::
    "(string \<times> DynamoDBTelemetryItem) list \<Rightarrow> DynamoDBTelemetryItem list
      \<Rightarrow> (string \<times> DynamoDBTelemetryItem) list" where
  "latestByType m [] = m"
| "latestByType m (item # rest) =
     (if hasMainTypes (keepLatest m item) then keepLatest m item
      else latestByType (keepLatest m item) rest)"

text \<open>What the \<open>try\<close> block computes, and the function with its \<open>catch\<close>.\<close>

definition scanItems :: "ScanOutput promise \<Rightarrow> js_error + DynamoDBTelemetryItem list" where
  "scanItems sent =
     (case sent of
        Rejected e \<Rightarrow> Inl e
      | Resolved result \<Rightarrow>
          (case Items result of
             None \<Rightarrow> Inr []
           | Some its \<Rightarrow>
               if length its > 0
               then Inr (map snd (latestByType [] (Array_sort compareItems its)))
               else Inr []))"

definition getLatestTelemetry_dynamodb ::
    "ScanOutput promise \<Rightarrow> js_error + DynamoDBTelemetryItem list" where
  "getLatestTelemetry_dynamodb sent =
     (case scanItems sent of Inl error \<Rightarrow> Inr [] | Inr items \<Rightarrow> Inr items)"

section \<open>The pre-aggregated adapter: \<open>getLatestTelemetry\<close> of \<open>services/api.ts\<close>\<close>

text \<open>
  The parsed body of a response is \<open>null\<close>, on which \<open>data.telemetry\<close> throws a
  \<open>TypeError\<close>, or another value, of which the adapter reads the \<open>telemetry\<close>
  property: \<open>Body None\<close> when it is missing or falsy.
\<close>

datatype body = NullBody | Body "Telemetry option"

record Response =
  ok :: bool
  status :: nat
  statusText :: string
  json :: "body promise"

definition TypeError :: js_error where
  "TypeError = Error ''Cannot read properties of null''"

definition fetchTelemetry :: "Response promise \<Rightarrow> js_error + Telemetry option" where
  "fetchTelemetry fetched =
     (case fetched of
        Rejected e \<Rightarrow> Inl e
      | Resolved response \<Rightarrow>
          if \<not> ok response
          then Inl (Error (''API request failed: '' @ showNat (status response) @ '' ''
                            @ statusText response))
          else (case json response of
                  Rejected e \<Rightarrow> Inl e
                | Resolved NullBody \<Rightarrow> Inl TypeError
                | Resolved (Body t) \<Rightarrow> Inr t))"

definition getLatestTelemetry_api :: "Response promise \<Rightarrow> js_error + Telemetry option" where
  "getLatestTelemetry_api fetched =
     (case fetchTelemetry fetched of Inl error \<Rightarrow> Inr None | Inr t \<Rightarrow> Inr t)"

section \<open>The polling hook: \<open>useDynamoDB\<close>\<close>

text \<open>
  The three state cells of the hook and the flag \<open>isMounted\<close> of its effect, which the
  cleanup clears.
\<close>

record hook =
  telemetry :: "Telemetry option"
  isConnected :: bool
  error :: "string option"
  isMounted :: bool

definition useDynamoDB :: hook where
  "useDynamoDB = \<lparr> telemetry = None, isConnected = False, error = None, isMounted = True \<rparr>"

definition cleanup :: "hook \<Rightarrow> hook" where
  "cleanup s = s\<lparr> isMounted := False \<rparr>"

text \<open>\<open>err instanceof Error ? err.message : 'Unknown error'\<close>\<close>

fun errorMessage :: "js_error \<Rightarrow> string" where
  "errorMessage (Error message) = message"
| "errorMessage NonError = ''Unknown error''"

text \<open>
  \<open>pollTelemetry\<close> of \<open>hooks/useDynamoDB.ts\<close>, from the point where the awaited
  adapter call has settled with \<open>got\<close>.
\<close>

definition pollTelemetry :: "js_error + Telemetry option \<Rightarrow> hook \<Rightarrow> hook" where
  "pollTelemetry got s =
     (case got of
        Inr d \<Rightarrow>
          if \<not> isMounted s then s
          else (case d of
                  Some t \<Rightarrow> s\<lparr> telemetry := Some t, isConnected := True, error := None \<rparr>
                | None \<Rightarrow> s\<lparr> isConnected := True, error := None \<rparr>)
      | Inl err \<Rightarrow>
          if \<not> isMounted s then s
          else s\<lparr> error := Some (errorMessage err), isConnected := False \<rparr>)"

text \<open>
  \<open>pollTelemetry\<close> of the hook's other version, which polls the batch-scan adapter
  and fuses the fragments itself.
\<close>

definition pollTelemetry_dynamodb ::
    "runtime \<Rightarrow> real \<Rightarrow> js_error + DynamoDBTelemetryItem list \<Rightarrow> hook \<Rightarrow> hook" where
  "pollTelemetry_dynamodb rt now got s =
     (case got of
        Inr items \<Rightarrow>
          if \<not> isMounted s then s
          else if length items > 0
            then s\<lparr> telemetry := Some (transformMavlinkToTelemetry rt now items),
                    isConnected := True, error := None \<rparr>
            else s\<lparr> isConnected := True, error := None \<rparr>
      | Inl err \<Rightarrow>
          if \<not> isMounted s then s
          else s\<lparr> error := Some (errorMessage err), isConnected := False \<rparr>)"

text \<open>
  One poll cycle of the hook as it is wired to the HTTP adapter, and a run of cycles,
  one per settled request.
\<close>

definition pollCycle :: "Response promise \<Rightarrow> hook \<Rightarrow> hook" where
  "pollCycle fetched s = pollTelemetry (getLatestTelemetry_api fetched) s"

fun pollCycles :: "Response promise list \<Rightarrow> hook \<Rightarrow> hook" where
  "pollCycles [] s = s"
| "pollCycles (fetched # rest) s = pollCycles rest (pollCycle fetched s)"

section \<open>Predicates of the proofs and example inputs\<close>

text \<open>A list of records that is in descending order of effective timestamp.\<close>

definition newestFirst :: "DynamoDBTelemetryItem list \<Rightarrow> bool" where
  "newestFirst xs = sorted_wrt (\<lambda>a b. effectiveTimestamp b \<le> effectiveTimestamp a) xs"

text \<open>The invariant of \<open>latestByType\<close>: one entry per key, each under its record's kind.\<close>

definition keyed :: "(string \<times> DynamoDBTelemetryItem) list \<Rightarrow> bool" where
  "keyed m = (distinct (map fst m) \<and> list_all (\<lambda>e. itemKind (snd e) = fst e) m)"

text \<open>The double that the literal \<open>4.2\<close> denotes.\<close>

definition nearest_4_2 :: real where
  "nearest_4_2 = 4728779608739021 / 1125899906842624"

text \<open>
  The examples run on a runtime whose string conversions are never reached. A
  \<open>fragment\<close> is a payload of one kind with a producer timestamp and no other field;
  \<open>record_of\<close> wraps a payload in a record that carries the same timestamp.
\<close>

definition noConversions :: runtime where
  "noConversions =
     \<lparr> parseFloat = (\<lambda>s. NaN), stringToNumber = (\<lambda>s. NaN), formatNumber = (\<lambda>r. ''?'') \<rparr>"

definition fragment :: "string \<Rightarrow> real \<Rightarrow> payload" where
  "fragment kind t =
     \<lparr> data_type = Some kind, data_timestamp = Some t, remaining = JUndefined,
       voltage = JUndefined, relative = JUndefined, amsl = JUndefined,
       data_armed = JUndefined, mode = None \<rparr>"

definition record_of :: "payload \<Rightarrow> DynamoDBTelemetryItem" where
  "record_of d =
     \<lparr> item_timestamp = data_timestamp d, sysid = None, item_type = None, data = Some d \<rparr>"

text \<open>
  A response with the status 500, and a hook that has published a snapshot.
\<close>

definition serverError :: Response where
  "serverError = \<lparr> ok = False, status = 500, statusText = ''Internal Server Error'',
     json = Resolved (Body None) \<rparr>"

definition published :: hook where
  "published = \<lparr> telemetry = Some (transformMavlinkToTelemetry noConversions 1000 []),
     isConnected = True, error = None, isMounted = True \<rparr>"

section \<open>Rounding to a double is accurate\<close>

lemma ilog2_ge1:
  assumes "1 \<le> x"
  shows "2 powi (ilog2 x) \<le> x \<and> x < 2 powi (ilog2 x + 1)"
proof -
  let ?n = "\<lfloor>x\<rfloor>"
  have n: "0 < ?n" using assms by simp
  have b1: "1 \<le> bitlen ?n"
    using n by (simp add: bitlen_ge_iff_power)
  have lo: "2 ^ nat (bitlen ?n - 1) \<le> ?n" and hi: "?n < 2 ^ nat (bitlen ?n)"
    using bitlen_bounds [OF n] by simp_all
  have e: "ilog2 x = bitlen ?n - 1"
    using assms by (simp add: ilog2_def)
  have "(2::real) powi (bitlen ?n - 1) = 2 ^ nat (bitlen ?n - 1)"
    using b1 by (simp add: power_int_def)
  also have "\<dots> = of_int (2 ^ nat (bitlen ?n - 1))" by simp
  also have "\<dots> \<le> of_int ?n" using lo by (simp only: of_int_le_iff)
  also have "\<dots> \<le> x" by simp
  finally have low: "2 powi (ilog2 x) \<le> x" by (simp add: e)
  have "?n + 1 \<le> 2 ^ nat (bitlen ?n)" using hi by simp
  then have "of_int (?n + 1) \<le> (of_int (2 ^ nat (bitlen ?n)) :: real)"
    by (simp only: of_int_le_iff)
  then have "real_of_int ?n + 1 \<le> 2 ^ nat (bitlen ?n)" by simp
  moreover have "x < real_of_int ?n + 1" by linarith
  ultimately have "x < 2 ^ nat (bitlen ?n)" by linarith
  moreover have "(2::real) powi (bitlen ?n) = 2 ^ nat (bitlen ?n)"
    using b1 by (simp add: power_int_def)
  ultimately have "x < 2 powi (ilog2 x + 1)" by (simp add: e)
  with low show ?thesis by simp
qed

lemma ilog2_lt1:
  assumes "0 < x" and "x < 1"
  shows "2 powi (ilog2 x) \<le> x \<and> x < 2 powi (ilog2 x + 1)"
proof -
  let ?y = "1 / x"
  let ?m = "\<lceil>?y\<rceil> - 1"
  let ?k = "bitlen ?m"
  have y1: "1 < ?y" using assms by simp
  then have m: "0 < ?m" by linarith
  have k1: "1 \<le> ?k" using m by (simp add: bitlen_ge_iff_power)
  have lo: "2 ^ nat (?k - 1) \<le> ?m" and hi: "?m < 2 ^ nat ?k"
    using bitlen_bounds [OF m] by simp_all
  have e: "ilog2 x = - ?k" using assms by (simp add: ilog2_def)
  have "?m + 1 \<le> 2 ^ nat ?k" using hi by simp
  then have "of_int (?m + 1) \<le> (of_int (2 ^ nat ?k) :: real)"
    by (simp only: of_int_le_iff)
  then have "real_of_int ?m + 1 \<le> 2 ^ nat ?k" by simp
  moreover have "?y \<le> real_of_int ?m + 1" by linarith
  ultimately have yk: "?y \<le> 2 ^ nat ?k" by linarith
  have "(of_int (2 ^ nat (?k - 1)) :: real) \<le> of_int ?m"
    using lo by (simp only: of_int_le_iff)
  then have "2 ^ nat (?k - 1) \<le> real_of_int ?m" by simp
  moreover have "real_of_int ?m < ?y" by linarith
  ultimately have ky: "2 ^ nat (?k - 1) < ?y" by linarith
  have p: "(0::real) < 2 ^ nat ?k" and p': "(0::real) < 2 ^ nat (?k - 1)" by simp_all
  have "1 / 2 ^ nat ?k \<le> x"
    using yk assms(1) p by (simp add: field_simps)
  moreover have "(2::real) powi (- ?k) = 1 / 2 ^ nat ?k"
    using k1 by (simp add: power_int_def field_simps)
  ultimately have low: "2 powi (ilog2 x) \<le> x" by (simp add: e)
  have "x < 1 / 2 ^ nat (?k - 1)"
    using ky assms(1) p' by (simp add: field_simps)
  moreover have "(2::real) powi (- ?k + 1) = 1 / 2 ^ nat (?k - 1)"
  proof (cases "?k = 1")
    case True
    then show ?thesis by simp
  next
    case False
    then have "- ?k + 1 < 0" using k1 by simp
    moreover have "nat (- (- ?k + 1)) = nat (?k - 1)" by simp
    ultimately show ?thesis by (simp add: power_int_def field_simps)
  qed
  ultimately have "x < 2 powi (ilog2 x + 1)" by (simp add: e)
  with low show ?thesis by simp
qed

lemma ilog2_bounds:
  "0 < x \<Longrightarrow> 2 powi (ilog2 x) \<le> x \<and> x < 2 powi (ilog2 x + 1)"
  using ilog2_ge1 [of x] ilog2_lt1 [of x] by (cases "1 \<le> x") simp_all

lemma roundEven_nearest: "\<bar>of_int (roundEven y) - y\<bar> \<le> 1 / 2"
proof -
  have "of_int \<lfloor>y\<rfloor> \<le> y" and "y < of_int \<lfloor>y\<rfloor> + 1" by linarith+
  then show ?thesis by (auto simp: roundEven_def)
qed

lemma roundEven_nonneg: "0 \<le> y \<Longrightarrow> 0 \<le> roundEven y"
  by (auto simp: roundEven_def)

lemma toDouble_Fin:
  assumes "toDouble x = Fin y"
  shows "\<bar>y - x\<bar> \<le> \<bar>x\<bar> / 2 ^ 53 + 1 / 2 ^ 1075 \<and> (0 \<le> x \<longrightarrow> 0 \<le> y) \<and> (x \<le> 0 \<longrightarrow> y \<le> 0)"
proof (cases "x = 0")
  case True
  then show ?thesis using assms by (simp add: toDouble_def)
next
  case False
  define a where "a = \<bar>x\<bar>"
  define e where "e = ilog2 a"
  define q :: real where "q = 2 powi (max e (- 1022) - 52)"
  define m where "m = roundEven (a / q)"
  have a: "0 < a" using False by (simp add: a_def)
  have q: "0 < q" by (simp add: q_def)
  have y: "y = sgn x * of_int m * q"
    using assms False
    by (simp add: toDouble_def Let_def a_def e_def q_def m_def split: if_splits)
  have m0: "0 \<le> m"
    unfolding m_def using a q by (intro roundEven_nonneg) simp
  have "\<bar>of_int m - a / q\<bar> \<le> 1 / 2"
    unfolding m_def by (rule roundEven_nearest)
  then have "\<bar>of_int m - a / q\<bar> * q \<le> 1 / 2 * q"
    using q by (intro mult_right_mono) simp_all
  moreover have "\<bar>of_int m - a / q\<bar> * q = \<bar>of_int m * q - a\<bar>"
  proof -
    have "of_int m * q - a = (of_int m - a / q) * q"
      using q by (simp add: left_diff_distrib)
    then have "\<bar>of_int m * q - a\<bar> = \<bar>of_int m - a / q\<bar> * \<bar>q\<bar>"
      by (simp only: abs_mult)
    then show ?thesis using q by simp
  qed
  ultimately have near: "\<bar>of_int m * q - a\<bar> \<le> q / 2" by simp
  have x: "x = sgn x * a" by (simp add: a_def sgn_mult_abs)
  have "y - x = sgn x * (of_int m * q - a)"
    using x by (simp add: y right_diff_distrib mult.assoc)
  then have "\<bar>y - x\<bar> = \<bar>of_int m * q - a\<bar>"
    using False by (simp add: abs_mult abs_sgn_eq)
  then have err: "\<bar>y - x\<bar> \<le> q / 2" using near by simp
  have half: "q / 2 \<le> a / 2 ^ 53 + 1 / 2 ^ 1075"
  proof (cases "- 1022 \<le> e")
    case True
    then have "q = 2 powi (e - 52)" by (simp add: q_def max_def)
    also have "\<dots> = 2 powi e / 2 ^ 52" by (simp add: power_int_diff)
    finally have "q / 2 = 2 powi e / 2 ^ 53" by simp
    moreover have "2 powi e \<le> a" using ilog2_bounds [OF a] by (simp add: e_def)
    ultimately have "q / 2 \<le> a / 2 ^ 53" by (simp add: divide_right_mono)
    then show ?thesis by (simp add: add_increasing2)
  next
    case False
    then have "q = 2 powi (- 1074)" by (simp add: q_def max_def)
    then have "q / 2 = 1 / 2 ^ 1075" by (simp add: power_int_minus_divide)
    then show ?thesis using a by simp
  qed
  have "0 \<le> x \<longrightarrow> 0 \<le> y" and "x \<le> 0 \<longrightarrow> y \<le> 0"
    using m0 q False by (auto simp: y sgn_if mult_nonneg_nonneg mult_nonpos_nonneg)
  then show ?thesis using err half by (simp add: a_def)
qed

lemma toDouble_overflow:
  assumes "toDouble x = PosInf \<or> toDouble x = NegInf"
  shows "2 ^ 1023 \<le> \<bar>x\<bar>"
proof -
  have nz: "x \<noteq> 0" using assms by (auto simp: toDouble_def)
  then have a: "0 < \<bar>x\<bar>" by simp
  have "1023 \<le> ilog2 \<bar>x\<bar>"
    using assms nz by (auto simp: toDouble_def Let_def split: if_splits)
  then have "(2::real) powi 1023 \<le> 2 powi (ilog2 \<bar>x\<bar>)"
    by (intro power_int_increasing) simp_all
  also have "\<dots> \<le> \<bar>x\<bar>" using ilog2_bounds [OF a] by simp
  finally show ?thesis by simp
qed

lemma toDouble_PosInf: "toDouble x = PosInf \<Longrightarrow> 2 ^ 1023 \<le> x"
  using toDouble_overflow [of x] by (auto simp: toDouble_def Let_def split: if_splits)

lemma toDouble_NegInf: "toDouble x = NegInf \<Longrightarrow> x \<le> - (2 ^ 1023)"
  using toDouble_overflow [of x] by (auto simp: toDouble_def Let_def split: if_splits)

lemma toDouble_not_NaN: "toDouble x \<noteq> NaN"
  by (simp add: toDouble_def Let_def)

lemma toDouble_4_2: "toDouble 4.2 = Fin (4728779608739021 / 1125899906842624)"
  by (simp add: toDouble_def ilog2_def roundEven_def Let_def compute_bitlen)

lemma toDouble_cases [case_names PosInf NegInf Fin]:
  obtains "toDouble x = PosInf" and "1000 \<le> x"
  | "toDouble x = NegInf" and "x \<le> - 1000"
  | y where "toDouble x = Fin y"
      and "0 \<le> x \<longrightarrow> 0 \<le> y \<and> y \<le> x + x / 1000000000000000 + 1 / 1000000000000000 \<and> x - x / 1000000000000000 - 1 / 1000000000000000 \<le> y"
      and "x \<le> 0 \<longrightarrow> y \<le> 0"
proof (cases "toDouble x")
  case NaN
  then show ?thesis by (simp add: toDouble_not_NaN)
next
  case NegInf
  have "(1000::real) \<le> 2 ^ 10" by simp
  also have "(2::real) ^ 10 \<le> 2 ^ 1023" by (rule power_increasing) simp_all
  finally have "x \<le> - 1000" using toDouble_NegInf [OF NegInf] by linarith
  then show ?thesis using NegInf that(2) by blast
next
  case PosInf
  have "(1000::real) \<le> 2 ^ 10" by simp
  also have "(2::real) ^ 10 \<le> 2 ^ 1023" by (rule power_increasing) simp_all
  finally have "1000 \<le> x" using toDouble_PosInf [OF PosInf] by linarith
  then show ?thesis using PosInf that(1) by blast
next
  case (Fin y)
  have u: "(1::real) / 2 ^ 53 \<le> 1 / 1000000000000000" by simp
  have "(1000000000000000::real) \<le> 2 ^ 53" by simp
  also have "\<dots> \<le> 2 ^ 1075" by (rule power_increasing) simp_all
  finally have "(1::real) / 2 ^ 1075 \<le> 1 / 1000000000000000"
    by (intro divide_left_mono) simp_all
  moreover have e: "\<bar>y - x\<bar> \<le> \<bar>x\<bar> / 2 ^ 53 + 1 / 2 ^ 1075" and p: "0 \<le> x \<longrightarrow> 0 \<le> y"
    and n: "x \<le> 0 \<longrightarrow> y \<le> 0"
    using toDouble_Fin [OF Fin] by simp_all
  moreover have "0 \<le> x \<longrightarrow> \<bar>x\<bar> / 2 ^ 53 \<le> x / 1000000000000000"
    by (simp add: field_simps)
  ultimately have "0 \<le> x \<longrightarrow> 0 \<le> y \<and> y \<le> x + x / 1000000000000000 + 1 / 1000000000000000
      \<and> x - x / 1000000000000000 - 1 / 1000000000000000 \<le> y"
    by (auto simp: abs_le_iff)
  then show ?thesis using Fin n that(3) by blast
qed

lemma clamp_close: "\<bar>max 0 (min 100 p) - max 0 (min 100 f)\<bar> \<le> \<bar>p - (f::real)\<bar>"
  by (auto simp: max_def min_def)

lemma times_100_nonpos:
  assumes "q \<le> 0"
  shows "Math_max (Fin 0) (Math_min (Fin 100) (js_mul (Fin q) (Fin 100))) = Fin 0"
proof (cases "q * 100" rule: toDouble_cases)
  case PosInf
  then show ?thesis using assms by linarith
next
  case NegInf
  then show ?thesis by simp
next
  case (Fin p)
  then have "p \<le> 0" using assms by simp
  then show ?thesis using Fin(1) by simp
qed

lemma times_100_large:
  assumes "11 / 10 \<le> q"
  shows "Math_max (Fin 0) (Math_min (Fin 100) (js_mul (Fin q) (Fin 100))) = Fin 100"
proof (cases "q * 100" rule: toDouble_cases)
  case PosInf
  then show ?thesis by simp
next
  case NegInf
  then show ?thesis using assms by linarith
next
  case (Fin p)
  then have "q * 100 - q * 100 / 1000000000000000 - 1 / 1000000000000000 \<le> p" using assms by simp
  then have "100 \<le> p" using assms by linarith
  then show ?thesis using Fin(1) by simp
qed

lemma times_100_close:
  assumes "0 \<le> q" and "q \<le> 2"
  shows "\<exists>p. Math_max (Fin 0) (Math_min (Fin 100) (js_mul (Fin q) (Fin 100)))
            = Fin (max 0 (min 100 p))
          \<and> \<bar>p - q * 100\<bar> \<le> q / 10000000000000 + 1 / 1000000000000000"
proof (cases "q * 100" rule: toDouble_cases)
  case PosInf
  then show ?thesis using assms by linarith
next
  case NegInf
  then show ?thesis using assms by linarith
next
  case (Fin p)
  then have "p \<le> q * 100 + q * 100 / 1000000000000000 + 1 / 1000000000000000"
    and "q * 100 - q * 100 / 1000000000000000 - 1 / 1000000000000000 \<le> p"
    using assms by simp_all
  then have "\<bar>p - q * 100\<bar> \<le> q / 10000000000000 + 1 / 1000000000000000" by linarith
  then show ?thesis using Fin(1) by auto
qed

lemma divide_nonpos:
  assumes "a \<le> 0"
  shows "Math_max (Fin 0) (Math_min (Fin 100)
           (js_mul (js_div (Fin a) (Fin nearest_4_2)) (Fin 100))) = Fin 0"
proof -
  have c: "0 < nearest_4_2" by (simp add: nearest_4_2_def)
  then have le: "a / nearest_4_2 \<le> 0" using assms by (simp add: divide_nonpos_pos)
  show ?thesis
  proof (cases "a / nearest_4_2" rule: toDouble_cases)
    case PosInf
    then show ?thesis using le by linarith
  next
    case NegInf
    then show ?thesis using c by simp
  next
    case (Fin q)
    then have "q \<le> 0" using le by simp
    then show ?thesis using Fin(1) c times_100_nonpos [of q] by simp
  qed
qed

lemma divide_large:
  assumes "49 / 10 \<le> a"
  shows "Math_max (Fin 0) (Math_min (Fin 100)
           (js_mul (js_div (Fin a) (Fin nearest_4_2)) (Fin 100))) = Fin 100"
proof -
  define r where "r = a / nearest_4_2"
  have c: "0 < nearest_4_2" by (simp add: nearest_4_2_def)
  have "115 / 100 * nearest_4_2 \<le> 49 / 10" by (simp add: nearest_4_2_def)
  then have "115 / 100 * nearest_4_2 \<le> a" using assms by linarith
  then have big: "115 / 100 \<le> r" using c by (simp add: r_def pos_le_divide_eq)
  have div: "js_div (Fin a) (Fin nearest_4_2) = toDouble r" using c by (simp add: r_def)
  show ?thesis
  proof (cases r rule: toDouble_cases)
    case PosInf
    then show ?thesis unfolding div by simp
  next
    case NegInf
    then show ?thesis using big by linarith
  next
    case (Fin q)
    then have "r - r / 1000000000000000 - 1 / 1000000000000000 \<le> q"
      using big by simp
    then have "11 / 10 \<le> q" using big by linarith
    then show ?thesis unfolding div using Fin(1) times_100_large [of q] by simp
  qed
qed

lemma divide_close:
  assumes "0 \<le> a" and "a \<le> 51 / 10"
  shows "\<exists>p. Math_max (Fin 0) (Math_min (Fin 100)
              (js_mul (js_div (Fin a) (Fin nearest_4_2)) (Fin 100)))
            = Fin (max 0 (min 100 p))
          \<and> \<bar>p - a / nearest_4_2 * 100\<bar> \<le> 4 / 10000000000000"
proof -
  define r where "r = a / nearest_4_2"
  have c: "0 < nearest_4_2" by (simp add: nearest_4_2_def)
  have lo: "0 \<le> r" using assms c by (simp add: r_def)
  have "51 / 10 \<le> 13 / 10 * nearest_4_2" by (simp add: nearest_4_2_def)
  then have "a \<le> 13 / 10 * nearest_4_2" using assms by linarith
  then have hi: "r \<le> 13 / 10" using c by (simp add: r_def pos_divide_le_eq)
  have div: "js_div (Fin a) (Fin nearest_4_2) = toDouble r" using c by (simp add: r_def)
  show ?thesis
  proof (cases r rule: toDouble_cases)
    case PosInf
    then show ?thesis using hi by linarith
  next
    case NegInf
    then show ?thesis using lo by linarith
  next
    case (Fin q)
    then have q: "0 \<le> q" "q \<le> r + r / 1000000000000000 + 1 / 1000000000000000"
      "r - r / 1000000000000000 - 1 / 1000000000000000 \<le> q"
      using lo by simp_all
    then have q2: "q \<le> 2" using hi by linarith
    obtain p where p: "Math_max (Fin 0) (Math_min (Fin 100) (js_mul (Fin q) (Fin 100)))
          = Fin (max 0 (min 100 p))"
      and e: "\<bar>p - q * 100\<bar> \<le> q / 10000000000000 + 1 / 1000000000000000"
      using times_100_close [OF q(1) q2] by blast
    have "\<bar>p - r * 100\<bar> \<le> 4 / 10000000000000"
      using e q hi lo by linarith
    then have "\<bar>p - a / nearest_4_2 * 100\<bar> \<le> 4 / 10000000000000"
      by (simp only: r_def)
    then show ?thesis unfolding div using p Fin(1) by (intro exI [of _ p]) simp
  qed
qed

lemma toDouble_literal: "toDouble 4.2 = Fin nearest_4_2"
  unfolding nearest_4_2_def by (rule toDouble_4_2)

lemma estimate_of_difference:
  "\<exists>b. Math_max (Fin 0) (Math_min (Fin 100)
           (js_mul (js_div (toDouble d) (Fin nearest_4_2)) (Fin 100))) = Fin b
        \<and> 0 \<le> b \<and> b \<le> 100
        \<and> \<bar>b - max 0 (min 100 (d / 4.2 * 100))\<bar> \<le> 1 / 10 ^ 12"
proof -
  have c: "0 \<le> nearest_4_2" by (simp add: nearest_4_2_def)
  show ?thesis
  proof (cases d rule: toDouble_cases)
    case PosInf
    then have "100 \<le> d / 4.2 * 100" by simp
    then have "max 0 (min 100 (d / 4.2 * 100)) = 100" by (simp add: max_def min_def)
    then show ?thesis using PosInf(1) c by simp
  next
    case NegInf
    then have "d / 4.2 * 100 \<le> 0" by simp
    then have "max 0 (min 100 (d / 4.2 * 100)) = 0" by (simp add: max_def min_def)
    then show ?thesis using NegInf(1) c by simp
  next
    case (Fin a)
    consider "d \<le> 0" | "0 < d" "d \<le> 5" | "5 < d" by linarith
    then show ?thesis
    proof cases
      case 1
      then have "a \<le> 0" using Fin by simp
      then have "Math_max (Fin 0) (Math_min (Fin 100)
           (js_mul (js_div (Fin a) (Fin nearest_4_2)) (Fin 100))) = Fin 0"
        by (rule divide_nonpos)
      moreover have "d / 4.2 * 100 \<le> 0" using 1 by simp
      then have "max 0 (min 100 (d / 4.2 * 100)) = 0" by (simp add: max_def min_def)
      ultimately show ?thesis using Fin(1) by simp
    next
      case 2
      then have a: "0 \<le> a" "a \<le> d + d / 1000000000000000 + 1 / 1000000000000000"
        "d - d / 1000000000000000 - 1 / 1000000000000000 \<le> a"
        using Fin by simp_all
      then have "a \<le> 51 / 10" using 2 by linarith
      then obtain p where p: "Math_max (Fin 0) (Math_min (Fin 100)
              (js_mul (js_div (Fin a) (Fin nearest_4_2)) (Fin 100)))
            = Fin (max 0 (min 100 p))"
        and e: "\<bar>p - a / nearest_4_2 * 100\<bar> \<le> 4 / 10000000000000"
        using divide_close [OF a(1)] by blast
      define r where "r = a / nearest_4_2"
      define f where "f = d / 4.2 * 100"
      have r: "r = a * (1125899906842624 / 4728779608739021)"
        by (simp add: r_def nearest_4_2_def)
      have f: "f = d * (1000 / 42)" by (simp add: f_def)
      have "\<bar>p - r * 100\<bar> \<le> 4 / 10000000000000" using e by (simp add: r_def)
      then have "\<bar>p - f\<bar> \<le> 1 / 1000000000000"
        using a 2 unfolding r f by linarith
      then have "\<bar>max 0 (min 100 p) - max 0 (min 100 f)\<bar> \<le> 1 / 1000000000000"
        using clamp_close [of p f] by linarith
      then have "\<bar>max 0 (min 100 p) - max 0 (min 100 (d / 4.2 * 100))\<bar> \<le> 1 / 10 ^ 12"
        by (simp add: f_def)
      moreover have "0 \<le> max 0 (min 100 p)" and "max 0 (min 100 p) \<le> 100" by simp_all
      ultimately show ?thesis using p Fin(1) by auto
    next
      case 3
      then have "d - d / 1000000000000000 - 1 / 1000000000000000 \<le> a" using Fin by simp
      then have "49 / 10 \<le> a" using 3 by linarith
      then have "Math_max (Fin 0) (Math_min (Fin 100)
           (js_mul (js_div (Fin a) (Fin nearest_4_2)) (Fin 100))) = Fin 100"
        by (rule divide_large)
      moreover have "100 \<le> d / 4.2 * 100" using 3 by simp
      then have "max 0 (min 100 (d / 4.2 * 100)) = 100" by (simp add: max_def min_def)
      ultimately show ?thesis using Fin(1) by simp
    qed
  qed
qed

lemma voltage_estimate:
  "\<exists>b. Math_max (Fin 0) (Math_min (Fin 100)
           (js_mul (js_div (js_sub (Fin v) (Fin 12)) (toDouble 4.2)) (Fin 100))) = Fin b
        \<and> 0 \<le> b \<and> b \<le> 100
        \<and> \<bar>b - max 0 (min 100 ((v - 12) / 4.2 * 100))\<bar> \<le> 1 / 10 ^ 12"
  unfolding js_sub.simps toDouble_literal by (rule estimate_of_difference)

section \<open>The fields of the fused snapshot\<close>

lemma transform_battery:
  "battery (transformMavlinkToTelemetry rt now items) =
     Math_max (Fin 0) (Math_min (Fin 100)
       (toNumber rt (batteryPercent rt (findData ''battery'' items))))"
  by (simp add: transformMavlinkToTelemetry_def Let_def)

lemma transform_armed:
  "armed (transformMavlinkToTelemetry rt now items) =
     truthy (nullish (field data_armed (findData ''state'' items)) (JBool False))"
  by (simp add: transformMavlinkToTelemetry_def Let_def)

lemma transform_flightMode:
  "flightMode (transformMavlinkToTelemetry rt now items) =
     flightModeOf rt (findData ''state'' items)"
  by (simp add: transformMavlinkToTelemetry_def Let_def)

lemma transform_timestamp:
  "timestamp (transformMavlinkToTelemetry rt now items) = latestTimestamp now items"
  by (simp add: transformMavlinkToTelemetry_def Let_def)

lemma transform_position:
  "position (transformMavlinkToTelemetry rt now items) =
     \<lparr> lat = defaultLat, lon = defaultLon, alt = altitude rt (findData ''altitude'' items) \<rparr>"
  by (simp add: transformMavlinkToTelemetry_def Let_def)

lemma transform_droneId:
  "droneId (transformMavlinkToTelemetry rt now items) = droneIdOf rt items"
  by (simp add: transformMavlinkToTelemetry_def Let_def)

lemma findData_Nil: "findData kind [] = None"
  by (simp add: findData_def)

lemma findData_single:
  "findData kind [record_of d] = (if data_type d = Some kind then Some d else None)"
  by (simp add: findData_def hasType_def record_of_def)

lemma fold_max_ge: "(a::real) \<le> fold max xs a"
proof (induction xs arbitrary: a)
  case Nil
  show ?case by simp
next
  case (Cons x xs)
  have "a \<le> max x a" by simp
  also have "\<dots> \<le> fold max xs (max x a)" by (rule Cons.IH)
  finally show ?case by simp
qed

lemma altitude_defined: "altitude rt d \<noteq> JUndefined"
proof (cases "field relative d = JUndefined")
  case True
  then show ?thesis
    by (cases "field amsl d") (simp_all add: altitude_def)
next
  case False
  then show ?thesis
    by (cases "field relative d") (simp_all add: altitude_def)
qed

lemma flightModeOf_nonempty: "flightModeOf rt d \<noteq> []"
  by (simp add: flightModeOf_def modeMap_def split: option.splits)

lemma fold_max_ge_elem: "(x::real) \<in> set xs \<Longrightarrow> x \<le> fold max xs a"
proof (induction xs arbitrary: a)
  case Nil
  then show ?case by simp
next
  case (Cons y ys)
  show ?case
  proof (cases "x = y")
    case True
    have "x \<le> max y a" using True by simp
    also have "\<dots> \<le> fold max ys (max y a)" by (rule fold_max_ge)
    finally show ?thesis by simp
  next
    case False
    then have "x \<in> set ys" using Cons.prems by simp
    then show ?thesis using Cons.IH by simp
  qed
qed

lemma clamp_idem:
  "Math_max (Fin 0) (Math_min (Fin 100) (Math_max (Fin 0) (Math_min (Fin 100) x)))
     = Math_max (Fin 0) (Math_min (Fin 100) x)"
  by (cases x) simp_all

lemma clamp_range:
  "Math_max (Fin 0) (Math_min (Fin 100) x) = NaN
   \<or> (\<exists>b. Math_max (Fin 0) (Math_min (Fin 100) x) = Fin b \<and> 0 \<le> b \<and> b \<le> 100)"
  by (cases x) simp_all

text \<open>The doubles of the examples, and the estimate at 16.2 V step by step.\<close>

lemma toDouble_16_2: "toDouble 16.2 = Fin (4559894622712627 / 281474976710656)"
  by (simp add: toDouble_def ilog2_def roundEven_def Let_def compute_bitlen)

lemma toDouble_12: "toDouble 12 = Fin 12"
  by (simp add: toDouble_def ilog2_def roundEven_def Let_def compute_bitlen)

lemma estimate_16_2_sub:
  "toDouble (4559894622712627 / 281474976710656 - 12)
     = Fin (1182194902184755 / 281474976710656)"
  by (simp add: toDouble_def ilog2_def roundEven_def Let_def compute_bitlen)

lemma estimate_16_2_div:
  "toDouble (1182194902184755 / 281474976710656 / (4728779608739021 / 1125899906842624))
     = Fin (4503599627370495 / 4503599627370496)"
  by (simp add: toDouble_def ilog2_def roundEven_def Let_def compute_bitlen)

lemma estimate_16_2_mul:
  "toDouble (4503599627370495 / 4503599627370496 * 100)
     = Fin (3518437208883199 / 35184372088832)"
  by (simp add: toDouble_def ilog2_def roundEven_def Let_def compute_bitlen)

lemma estimate_16_2:
  "js_mul (js_div (js_sub (Fin (4559894622712627 / 281474976710656)) (Fin 12)) (toDouble 4.2))
      (Fin 100) = Fin (3518437208883199 / 35184372088832)"
proof -
  have "js_sub (Fin (4559894622712627 / 281474976710656)) (Fin 12)
      = Fin (1182194902184755 / 281474976710656)"
    by (simp only: js_sub.simps estimate_16_2_sub)
  moreover have "js_div (Fin (1182194902184755 / 281474976710656)) (toDouble 4.2)
      = Fin (4503599627370495 / 4503599627370496)"
    unfolding toDouble_4_2 using estimate_16_2_div by simp
  moreover have "js_mul (Fin (4503599627370495 / 4503599627370496)) (Fin 100)
      = Fin (3518437208883199 / 35184372088832)"
    by (simp only: js_mul.simps estimate_16_2_mul)
  ultimately show ?thesis by simp
qed

lemma estimate_12:
  "js_mul (js_div (js_sub (Fin 12) (Fin 12)) (toDouble 4.2)) (Fin 100) = Fin 0"
  unfolding toDouble_4_2 by (simp add: toDouble_def)

section \<open>The fusion engine\<close>

text \<open>
  C1. A batch without a \<open>state\<close> fragment fuses to \<open>armed = false\<close> and one whose
  \<open>state\<close> fragment has \<open>armed = true\<close> to \<open>armed = true\<close>, but the snapshot
  carries no marker that tells the two situations apart: the object that
  \<open>transformMavlinkToTelemetry\<close> returns has no \<open>hasStateData\<close> property on any
  input, although the dashboard components read \<open>telemetry.hasStateData\<close>. A batch
  with no \<open>state\<close> fragment and a batch whose \<open>state\<close> fragment reports
  \<open>armed = false\<close> fuse to the same snapshot.
\<close>

theorem trust_flag_absent:
  "hasStateData (transformMavlinkToTelemetry rt now items) = None
   \<and> armed (transformMavlinkToTelemetry noConversions 1000 []) = False
   \<and> armed (transformMavlinkToTelemetry noConversions 1000
        [record_of ((fragment ''state'' 100)\<lparr> data_armed := JBool True \<rparr>)]) = True
   \<and> transformMavlinkToTelemetry noConversions 1000
        [record_of ((fragment ''state'' 100)\<lparr> data_armed := JBool False, mode := Some (Fin 0) \<rparr>)]
      = transformMavlinkToTelemetry noConversions 1000 []"
  unfolding transformMavlinkToTelemetry_def Let_def findData_single findData_Nil
  by (simp add: fragment_def field_def latestTimestamp_def effectiveTimestamp_def record_of_def
      droneIdOf_def flightModeOf_def modeMap_def altitude_def batteryPercent_def)

text \<open>
  C2. The fused timestamp is \<open>Math.max(...timestamps, Date.now())\<close> on every batch,
  not only on the empty one: a batch whose only fragment has the producer timestamp 100,
  fused when the clock reads 1000, gets the timestamp 1000.
\<close>

theorem timestamp_is_fetch_time:
  "effectiveTimestamp (record_of (fragment ''battery'' 100)) = 100
   \<and> timestamp (transformMavlinkToTelemetry noConversions 1000
        [record_of (fragment ''battery'' 100)]) = 1000
   \<and> now \<le> timestamp (transformMavlinkToTelemetry rt now items)"
  by (simp add: transform_timestamp latestTimestamp_def effectiveTimestamp_def record_of_def
      fragment_def fold_max_ge)

text \<open>
  C3, as amended. Let \<open>d\<close> be the battery fragment that the fusion reads. If its
  \<open>remaining\<close> is a number, the fused battery is that number clamped to the range from
  0 to 100, whatever the voltage. If \<open>remaining\<close> is missing and the voltage is a
  number other than zero, the battery is \<open>((voltage - 12) / 4.2) * 100\<close> computed in
  double arithmetic and clamped to the same range; it lies within \<open>10^-12\<close> of the
  clamped value of the exact expression. If both are missing, the battery is 100.
\<close>

theorem battery_derivation:
  assumes "findData ''battery'' items = Some d"
  shows
  "(remaining d = JNumber (Fin r) \<longrightarrow>
      battery (transformMavlinkToTelemetry rt now items) = Fin (max 0 (min 100 r))) \<and>
   (remaining d = JUndefined \<and> voltage d = JNumber (Fin v) \<and> v \<noteq> 0 \<longrightarrow>
      battery (transformMavlinkToTelemetry rt now items)
        = Math_max (Fin 0) (Math_min (Fin 100)
            (js_mul (js_div (js_sub (Fin v) (Fin 12)) (toDouble 4.2)) (Fin 100)))
      \<and> (\<exists>b. battery (transformMavlinkToTelemetry rt now items) = Fin b
             \<and> 0 \<le> b \<and> b \<le> 100
             \<and> \<bar>b - max 0 (min 100 ((v - 12) / 4.2 * 100))\<bar> \<le> 1 / 10 ^ 12)) \<and>
   (remaining d = JUndefined \<and> voltage d = JUndefined \<longrightarrow>
      battery (transformMavlinkToTelemetry rt now items) = Fin 100)"
proof -
  let ?t = "transformMavlinkToTelemetry rt now items"
  let ?estimate = "Math_max (Fin 0) (Math_min (Fin 100)
      (js_mul (js_div (js_sub (Fin v) (Fin 12)) (toDouble 4.2)) (Fin 100)))"
  have percent: "battery ?t
      = Math_max (Fin 0) (Math_min (Fin 100) (toNumber rt (batteryPercent rt (Some d))))"
    using assms by (simp add: transform_battery)
  have one: "remaining d = JNumber (Fin r) \<longrightarrow> battery ?t = Fin (max 0 (min 100 r))"
    by (simp add: percent batteryPercent_def field_def)
  have three: "remaining d = JUndefined \<and> voltage d = JUndefined \<longrightarrow> battery ?t = Fin 100"
    by (simp add: percent batteryPercent_def field_def)
  have two: "remaining d = JUndefined \<and> voltage d = JNumber (Fin v) \<and> v \<noteq> 0
      \<longrightarrow> battery ?t = ?estimate"
    by (simp add: percent batteryPercent_def field_def clamp_idem)
  obtain b where "?estimate = Fin b" and "0 \<le> b" and "b \<le> 100"
    and "\<bar>b - max 0 (min 100 ((v - 12) / 4.2 * 100))\<bar> \<le> 1 / 10 ^ 12"
    using voltage_estimate [of v] by blast
  then have "battery ?t = ?estimate \<longrightarrow>
      (\<exists>b. battery ?t = Fin b \<and> 0 \<le> b \<and> b \<le> 100
         \<and> \<bar>b - max 0 (min 100 ((v - 12) / 4.2 * 100))\<bar> \<le> 1 / 10 ^ 12)"
    by auto
  then show ?thesis using one two three by blast
qed

text \<open>
  The examples of the specification. \<open>remaining = 42\<close> beside a voltage gives 42.
  The voltage 16.2, that is the double nearest to it, gives the double
  \<open>100 - 2^-45\<close>, which JavaScript prints as \<open>99.99999999999997\<close>. The voltage
  12.0 gives 0, and neither field gives 100.
\<close>

theorem battery_derivation_witness:
  "battery (transformMavlinkToTelemetry noConversions 1000
      [record_of ((fragment ''battery'' 100)
         \<lparr> remaining := JNumber (Fin 42), voltage := JNumber (toDouble 16.2) \<rparr>)]) = Fin 42
   \<and> battery (transformMavlinkToTelemetry noConversions 1000
      [record_of ((fragment ''battery'' 100)\<lparr> voltage := JNumber (toDouble 16.2) \<rparr>)])
       = Fin (3518437208883199 / 35184372088832)
   \<and> (3518437208883199 / 35184372088832 :: real) = 100 - 1 / 2 ^ 45
   \<and> battery (transformMavlinkToTelemetry noConversions 1000
      [record_of ((fragment ''battery'' 100)\<lparr> voltage := JNumber (toDouble 12) \<rparr>)]) = Fin 0
   \<and> battery (transformMavlinkToTelemetry noConversions 1000
      [record_of (fragment ''battery'' 100)]) = Fin 100"
proof -
  let ?v = "4559894622712627 / 281474976710656 :: real"
  let ?d1 = "(fragment ''battery'' 100)
      \<lparr> remaining := JNumber (Fin 42), voltage := JNumber (Fin ?v) \<rparr>"
  let ?d2 = "(fragment ''battery'' 100)\<lparr> voltage := JNumber (Fin ?v) \<rparr>"
  let ?d3 = "(fragment ''battery'' 100)\<lparr> voltage := JNumber (Fin 12) \<rparr>"
  let ?d4 = "fragment ''battery'' 100"
  have f1: "findData ''battery'' [record_of ?d1] = Some ?d1"
    and f2: "findData ''battery'' [record_of ?d2] = Some ?d2"
    and f3: "findData ''battery'' [record_of ?d3] = Some ?d3"
    and f4: "findData ''battery'' [record_of ?d4] = Some ?d4"
    by (simp_all add: findData_single fragment_def)
  have b1: "battery (transformMavlinkToTelemetry noConversions 1000 [record_of ?d1]) = Fin 42"
    using battery_derivation [OF f1, of 42 noConversions 1000 0] by simp
  have h2: "remaining ?d2 = JUndefined \<and> voltage ?d2 = JNumber (Fin ?v) \<and> ?v \<noteq> 0"
    by (simp add: fragment_def)
  have "battery (transformMavlinkToTelemetry noConversions 1000 [record_of ?d2])
      = Math_max (Fin 0) (Math_min (Fin 100)
          (js_mul (js_div (js_sub (Fin ?v) (Fin 12)) (toDouble 4.2)) (Fin 100)))"
    using battery_derivation [OF f2, of 0 noConversions 1000 ?v] h2 by blast
  then have "battery (transformMavlinkToTelemetry noConversions 1000 [record_of ?d2])
      = Math_max (Fin 0) (Math_min (Fin 100) (Fin (3518437208883199 / 35184372088832)))"
    by (simp only: estimate_16_2)
  then have b2: "battery (transformMavlinkToTelemetry noConversions 1000 [record_of ?d2])
      = Fin (3518437208883199 / 35184372088832)"
    by simp
  have h3: "remaining ?d3 = JUndefined \<and> voltage ?d3 = JNumber (Fin 12) \<and> (12::real) \<noteq> 0"
    by (simp add: fragment_def)
  have "battery (transformMavlinkToTelemetry noConversions 1000 [record_of ?d3])
      = Math_max (Fin 0) (Math_min (Fin 100)
          (js_mul (js_div (js_sub (Fin 12) (Fin 12)) (toDouble 4.2)) (Fin 100)))"
    using battery_derivation [OF f3, of 0 noConversions 1000 12] h3 by blast
  then have "battery (transformMavlinkToTelemetry noConversions 1000 [record_of ?d3])
      = Math_max (Fin 0) (Math_min (Fin 100) (Fin 0))"
    by (simp only: estimate_12)
  then have b3: "battery (transformMavlinkToTelemetry noConversions 1000 [record_of ?d3]) = Fin 0"
    by simp
  have b4: "battery (transformMavlinkToTelemetry noConversions 1000 [record_of ?d4]) = Fin 100"
    using battery_derivation [OF f4, of 0 noConversions 1000 0] by (simp add: fragment_def)
  have "(3518437208883199 / 35184372088832 :: real) = 100 - 1 / 2 ^ 45" by simp
  then show ?thesis
    using b1 b2 b3 b4 by (simp only: toDouble_16_2 toDouble_12)
qed

text \<open>
  The claim as stated fails in three places. A \<open>remaining\<close> outside the range is
  clamped: \<open>remaining = -1\<close> fuses to the battery 0. A \<open>remaining\<close> that is
  \<open>null\<close> is present and fuses to the battery 0. And a voltage of 0 beside a missing
  \<open>remaining\<close> fuses to the default 100, where the expression gives 0.
\<close>

theorem battery_remaining_counterexample:
  "battery (transformMavlinkToTelemetry noConversions 1000
      [record_of ((fragment ''battery'' 100)\<lparr> remaining := JNumber (Fin (- 1)) \<rparr>)]) = Fin 0
   \<and> battery (transformMavlinkToTelemetry noConversions 1000
      [record_of ((fragment ''battery'' 100)\<lparr> remaining := JNumber (Fin (- 1)) \<rparr>)])
     \<noteq> Fin (- 1)
   \<and> battery (transformMavlinkToTelemetry noConversions 1000
      [record_of ((fragment ''battery'' 100)\<lparr> remaining := JNull \<rparr>)]) = Fin 0
   \<and> battery (transformMavlinkToTelemetry noConversions 1000
      [record_of ((fragment ''battery'' 100)\<lparr> voltage := JNumber (Fin 0) \<rparr>)]) = Fin 100
   \<and> max 0 (min 100 ((0 - 12) / 4.2 * 100)) = (0::real)"
  by (simp add: transform_battery findData_single fragment_def batteryPercent_def field_def)



text \<open>
  What the fusion guarantees of every sequence of records, the empty one included. The
  body reads every property of a fragment through \<open>?.\<close>, so no step of it can throw,
  and the object literal it returns has every property of \<open>Telemetry\<close> but the
  optional ones. The identifier and the flight mode are non-empty strings; latitude,
  longitude, velocity and attitude are the fixed defaults; the timestamp is a number,
  at least the clock's and at least every record's; the battery is \<open>NaN\<close> or lies
  between 0 and 100; the altitude is never \<open>undefined\<close>, and is a number whenever
  the property it is read from is a number or a string.

  Each field falls back to its default on its own: the battery to 100 when
  \<open>remaining\<close> and \<open>voltage\<close> are \<open>undefined\<close>, the altitude to 0 when
  \<open>relative\<close> and \<open>amsl\<close> are \<open>undefined\<close>, \<open>armed\<close> to false when the
  property is \<open>undefined\<close> or \<open>null\<close>, the flight mode to \<open>STABILIZE\<close> when the
  mode is \<open>undefined\<close> or \<open>null\<close>, the identifier to \<open>drone-1\<close> when the first
  record has no \<open>sysid\<close>. A property that is present reaches its own field whatever
  else is missing: a numeric \<open>remaining\<close> (clamped), a numeric or string
  \<open>relative\<close>, an \<open>amsl\<close> beside a missing \<open>relative\<close>, a boolean
  \<open>armed\<close>, a mode of the table, a \<open>sysid\<close> other than zero. The empty sequence
  gives exactly the defaults.
\<close>

lemma fusion_defaults:
  "alt (position (transformMavlinkToTelemetry rt now items)) \<noteq> JUndefined
   \<and> lat (position (transformMavlinkToTelemetry rt now items)) = 37.7749
   \<and> lon (position (transformMavlinkToTelemetry rt now items)) = - 122.4194
   \<and> velocity (transformMavlinkToTelemetry rt now items) = \<lparr> vx = 0, vy = 0, vz = 0 \<rparr>
   \<and> attitude (transformMavlinkToTelemetry rt now items) = \<lparr> roll = 0, pitch = 0, yaw = 0 \<rparr>
   \<and> droneId (transformMavlinkToTelemetry rt now items) \<noteq> []
   \<and> flightMode (transformMavlinkToTelemetry rt now items) \<noteq> []
   \<and> now \<le> timestamp (transformMavlinkToTelemetry rt now items)
   \<and> (\<forall>item\<in>set items.
         effectiveTimestamp item \<le> timestamp (transformMavlinkToTelemetry rt now items))
   \<and> (battery (transformMavlinkToTelemetry rt now items) = NaN
        \<or> (\<exists>b. battery (transformMavlinkToTelemetry rt now items) = Fin b
               \<and> 0 \<le> b \<and> b \<le> 100))
   \<and> (field remaining (findData ''battery'' items) = JUndefined
        \<and> field voltage (findData ''battery'' items) = JUndefined
      \<longrightarrow> battery (transformMavlinkToTelemetry rt now items) = Fin 100)
   \<and> (field relative (findData ''altitude'' items) = JUndefined
        \<and> field amsl (findData ''altitude'' items) = JUndefined
      \<longrightarrow> alt (position (transformMavlinkToTelemetry rt now items)) = JNumber (Fin 0))
   \<and> (field data_armed (findData ''state'' items) = JUndefined
        \<or> field data_armed (findData ''state'' items) = JNull
      \<longrightarrow> armed (transformMavlinkToTelemetry rt now items) = False)
   \<and> ((case findData ''state'' items of None \<Rightarrow> None | Some d \<Rightarrow> mode d) = None
      \<longrightarrow> flightMode (transformMavlinkToTelemetry rt now items) = ''STABILIZE'')
   \<and> ((case items of [] \<Rightarrow> None | item # rest \<Rightarrow> sysid item) = None
      \<longrightarrow> droneId (transformMavlinkToTelemetry rt now items) = ''drone-1'')
   \<and> (field remaining (findData ''battery'' items) = JNumber (Fin r)
      \<longrightarrow> battery (transformMavlinkToTelemetry rt now items) = Fin (max 0 (min 100 r)))
   \<and> (field relative (findData ''altitude'' items) = JNumber n
      \<longrightarrow> alt (position (transformMavlinkToTelemetry rt now items)) = JNumber n)
   \<and> (field relative (findData ''altitude'' items) = JString s
      \<longrightarrow> alt (position (transformMavlinkToTelemetry rt now items))
            = JNumber (parseFloat rt s))
   \<and> (field relative (findData ''altitude'' items) = JUndefined
        \<and> field amsl (findData ''altitude'' items) = JNumber n
      \<longrightarrow> alt (position (transformMavlinkToTelemetry rt now items)) = JNumber n)
   \<and> (field relative (findData ''altitude'' items) = JUndefined
        \<and> field amsl (findData ''altitude'' items) = JString s
      \<longrightarrow> alt (position (transformMavlinkToTelemetry rt now items))
            = JNumber (parseFloat rt s))
   \<and> (field data_armed (findData ''state'' items) = JBool a
      \<longrightarrow> armed (transformMavlinkToTelemetry rt now items) = a)
   \<and> ((case findData ''state'' items of None \<Rightarrow> None | Some d \<Rightarrow> mode d) = Some m
        \<and> modeMap m = Some name
      \<longrightarrow> flightMode (transformMavlinkToTelemetry rt now items) = name)
   \<and> ((case items of [] \<Rightarrow> None | item # rest \<Rightarrow> sysid item) = Some k \<and> k \<noteq> 0
      \<longrightarrow> droneId (transformMavlinkToTelemetry rt now items)
            = ''drone-'' @ numberToString rt k)
   \<and> transformMavlinkToTelemetry rt now [] =
       \<lparr> droneId = ''drone-1'', timestamp = now,
         position = \<lparr> lat = 37.7749, lon = - 122.4194, alt = JNumber (Fin 0) \<rparr>,
         velocity = \<lparr> vx = 0, vy = 0, vz = 0 \<rparr>,
         attitude = \<lparr> roll = 0, pitch = 0, yaw = 0 \<rparr>,
         battery = Fin 100, flightMode = ''STABILIZE'', armed = False,
         groundSpeed = None, distanceFromHome = None, hasStateData = None \<rparr>"
proof -
  let ?t = "transformMavlinkToTelemetry rt now items"
  have one: "numberToString rt 1 = ''1''"
    by (simp add: numberToString_def showNat.simps)
  have "alt (position ?t) \<noteq> JUndefined"
    by (simp add: transform_position altitude_defined)
  moreover have "lat (position ?t) = 37.7749" and "lon (position ?t) = - 122.4194"
    by (simp_all add: transform_position defaultLat_def defaultLon_def)
  moreover have "velocity ?t = \<lparr> vx = 0, vy = 0, vz = 0 \<rparr>"
    and "attitude ?t = \<lparr> roll = 0, pitch = 0, yaw = 0 \<rparr>"
    by (simp_all add: transformMavlinkToTelemetry_def Let_def)
  moreover have "droneId ?t \<noteq> []"
    by (simp add: transform_droneId droneIdOf_def)
  moreover have "flightMode ?t \<noteq> []"
    by (simp add: transform_flightMode flightModeOf_nonempty)
  moreover have "now \<le> timestamp ?t"
    by (simp add: transform_timestamp latestTimestamp_def fold_max_ge)
  moreover have "\<forall>item\<in>set items. effectiveTimestamp item \<le> timestamp ?t"
    by (simp add: transform_timestamp latestTimestamp_def fold_max_ge_elem)
  moreover have "battery ?t = NaN \<or> (\<exists>b. battery ?t = Fin b \<and> 0 \<le> b \<and> b \<le> 100)"
    unfolding transform_battery by (rule clamp_range)
  moreover have "field remaining (findData ''battery'' items) = JUndefined
        \<and> field voltage (findData ''battery'' items) = JUndefined
      \<longrightarrow> battery ?t = Fin 100"
    by (simp add: transform_battery batteryPercent_def)
  moreover have "field relative (findData ''altitude'' items) = JUndefined
        \<and> field amsl (findData ''altitude'' items) = JUndefined
      \<longrightarrow> alt (position ?t) = JNumber (Fin 0)"
    by (simp add: transform_position altitude_def)
  moreover have "field data_armed (findData ''state'' items) = JUndefined
        \<or> field data_armed (findData ''state'' items) = JNull
      \<longrightarrow> armed ?t = False"
    by (auto simp: transform_armed)
  moreover have "(case findData ''state'' items of None \<Rightarrow> None | Some d \<Rightarrow> mode d) = None
      \<longrightarrow> flightMode ?t = ''STABILIZE''"
    by (simp add: transform_flightMode flightModeOf_def modeMap_def split: option.splits)
  moreover have "(case items of [] \<Rightarrow> None | item # rest \<Rightarrow> sysid item) = None
      \<longrightarrow> droneId ?t = ''drone-1''"
    by (simp add: transform_droneId droneIdOf_def one)
  moreover have "field remaining (findData ''battery'' items) = JNumber (Fin r)
      \<longrightarrow> battery ?t = Fin (max 0 (min 100 r))"
    by (simp add: transform_battery batteryPercent_def)
  moreover have "field relative (findData ''altitude'' items) = JNumber n
      \<longrightarrow> alt (position ?t) = JNumber n"
    by (simp add: transform_position altitude_def)
  moreover have "field relative (findData ''altitude'' items) = JString s
      \<longrightarrow> alt (position ?t) = JNumber (parseFloat rt s)"
    by (simp add: transform_position altitude_def)
  moreover have "field relative (findData ''altitude'' items) = JUndefined
        \<and> field amsl (findData ''altitude'' items) = JNumber n
      \<longrightarrow> alt (position ?t) = JNumber n"
    by (simp add: transform_position altitude_def)
  moreover have "field relative (findData ''altitude'' items) = JUndefined
        \<and> field amsl (findData ''altitude'' items) = JString s
      \<longrightarrow> alt (position ?t) = JNumber (parseFloat rt s)"
    by (simp add: transform_position altitude_def)
  moreover have "field data_armed (findData ''state'' items) = JBool a \<longrightarrow> armed ?t = a"
    by (simp add: transform_armed)
  moreover have "(case findData ''state'' items of None \<Rightarrow> None | Some d \<Rightarrow> mode d) = Some m
        \<and> modeMap m = Some name
      \<longrightarrow> flightMode ?t = name"
    by (auto simp: transform_flightMode flightModeOf_def split: option.splits)
  moreover have "(case items of [] \<Rightarrow> None | item # rest \<Rightarrow> sysid item) = Some k \<and> k \<noteq> 0
      \<longrightarrow> droneId ?t = ''drone-'' @ numberToString rt k"
    by (simp add: transform_droneId droneIdOf_def)
  moreover have "transformMavlinkToTelemetry rt now [] =
       \<lparr> droneId = ''drone-1'', timestamp = now,
         position = \<lparr> lat = 37.7749, lon = - 122.4194, alt = JNumber (Fin 0) \<rparr>,
         velocity = \<lparr> vx = 0, vy = 0, vz = 0 \<rparr>,
         attitude = \<lparr> roll = 0, pitch = 0, yaw = 0 \<rparr>,
         battery = Fin 100, flightMode = ''STABILIZE'', armed = False,
         groundSpeed = None, distanceFromHome = None, hasStateData = None \<rparr>"
    by (simp add: transformMavlinkToTelemetry_def findData_Nil droneIdOf_def one
        latestTimestamp_def altitude_def field_def batteryPercent_def flightModeOf_def
        modeMap_def defaultLat_def defaultLon_def)
  ultimately show ?thesis by blast
qed

text \<open>
  A record with the \<open>sysid\<close> 7 that carries an armed state without a mode, followed
  by an altitude of 12.5 metres, and no battery fragment: \<open>armed\<close>, the altitude and
  the identifier come from the fragments, the flight mode and the battery are the
  defaults. A lone battery fragment with \<open>remaining = 60\<close>, and the mode 5 on a
  lone state fragment, are kept beside the defaults of the other fields.
\<close>

lemma fusion_defaults_example:
  "armed (transformMavlinkToTelemetry noConversions 1000
      [(record_of ((fragment ''state'' 100)\<lparr> data_armed := JBool True \<rparr>))\<lparr> sysid := Some 7 \<rparr>,
       record_of ((fragment ''altitude'' 105)\<lparr> relative := JNumber (Fin 12.5) \<rparr>)]) = True
   \<and> alt (position (transformMavlinkToTelemetry noConversions 1000
      [(record_of ((fragment ''state'' 100)\<lparr> data_armed := JBool True \<rparr>))\<lparr> sysid := Some 7 \<rparr>,
       record_of ((fragment ''altitude'' 105)\<lparr> relative := JNumber (Fin 12.5) \<rparr>)]))
       = JNumber (Fin 12.5)
   \<and> droneId (transformMavlinkToTelemetry noConversions 1000
      [(record_of ((fragment ''state'' 100)\<lparr> data_armed := JBool True \<rparr>))\<lparr> sysid := Some 7 \<rparr>,
       record_of ((fragment ''altitude'' 105)\<lparr> relative := JNumber (Fin 12.5) \<rparr>)]) = ''drone-7''
   \<and> flightMode (transformMavlinkToTelemetry noConversions 1000
      [(record_of ((fragment ''state'' 100)\<lparr> data_armed := JBool True \<rparr>))\<lparr> sysid := Some 7 \<rparr>,
       record_of ((fragment ''altitude'' 105)\<lparr> relative := JNumber (Fin 12.5) \<rparr>)]) = ''STABILIZE''
   \<and> battery (transformMavlinkToTelemetry noConversions 1000
      [(record_of ((fragment ''state'' 100)\<lparr> data_armed := JBool True \<rparr>))\<lparr> sysid := Some 7 \<rparr>,
       record_of ((fragment ''altitude'' 105)\<lparr> relative := JNumber (Fin 12.5) \<rparr>)]) = Fin 100
   \<and> battery (transformMavlinkToTelemetry noConversions 1000
      [record_of ((fragment ''battery'' 100)\<lparr> remaining := JNumber (Fin 60) \<rparr>)]) = Fin 60
   \<and> armed (transformMavlinkToTelemetry noConversions 1000
      [record_of ((fragment ''battery'' 100)\<lparr> remaining := JNumber (Fin 60) \<rparr>)]) = False
   \<and> alt (position (transformMavlinkToTelemetry noConversions 1000
      [record_of ((fragment ''battery'' 100)\<lparr> remaining := JNumber (Fin 60) \<rparr>)]))
       = JNumber (Fin 0)
   \<and> droneId (transformMavlinkToTelemetry noConversions 1000
      [record_of ((fragment ''battery'' 100)\<lparr> remaining := JNumber (Fin 60) \<rparr>)]) = ''drone-1''
   \<and> flightMode (transformMavlinkToTelemetry noConversions 1000
      [record_of ((fragment ''state'' 100)\<lparr> mode := Some (Fin 5) \<rparr>)]) = ''LOITER''
   \<and> armed (transformMavlinkToTelemetry noConversions 1000
      [record_of ((fragment ''state'' 100)\<lparr> mode := Some (Fin 5) \<rparr>)]) = False"
proof -
  let ?s = "(record_of ((fragment ''state'' 100)\<lparr> data_armed := JBool True \<rparr>))\<lparr> sysid := Some 7 \<rparr>"
  let ?a = "record_of ((fragment ''altitude'' 105)\<lparr> relative := JNumber (Fin 12.5) \<rparr>)"
  let ?b = "record_of ((fragment ''battery'' 100)\<lparr> remaining := JNumber (Fin 60) \<rparr>)"
  let ?m = "record_of ((fragment ''state'' 100)\<lparr> mode := Some (Fin 5) \<rparr>)"
  have sa: "findData ''state'' [?s, ?a]
       = Some ((fragment ''state'' 100)\<lparr> data_armed := JBool True \<rparr>)"
    "findData ''altitude'' [?s, ?a]
       = Some ((fragment ''altitude'' 105)\<lparr> relative := JNumber (Fin 12.5) \<rparr>)"
    "findData ''battery'' [?s, ?a] = None"
    by (simp_all add: findData_def hasType_def record_of_def fragment_def)
  have b: "findData ''battery'' [?b]
       = Some ((fragment ''battery'' 100)\<lparr> remaining := JNumber (Fin 60) \<rparr>)"
    "findData ''altitude'' [?b] = None" "findData ''state'' [?b] = None"
    by (simp_all add: findData_single fragment_def)
  have m: "findData ''state'' [?m] = Some ((fragment ''state'' 100)\<lparr> mode := Some (Fin 5) \<rparr>)"
    by (simp add: findData_single fragment_def)
  have seven: "numberToString noConversions 7 = ''7''"
    by (simp add: numberToString_def showNat.simps)
  have h1: "field data_armed (findData ''state'' [?s, ?a]) = JBool True"
    and h2: "field relative (findData ''altitude'' [?s, ?a]) = JNumber (Fin 12.5)"
    and h3: "(case [?s, ?a] of [] \<Rightarrow> None | item # rest \<Rightarrow> sysid item) = Some 7
        \<and> (7::real) \<noteq> 0"
    and h4: "(case findData ''state'' [?s, ?a] of None \<Rightarrow> None | Some d \<Rightarrow> mode d) = None"
    and h5: "field remaining (findData ''battery'' [?s, ?a]) = JUndefined
        \<and> field voltage (findData ''battery'' [?s, ?a]) = JUndefined"
    unfolding sa by (simp_all add: field_def fragment_def record_of_def)
  have h6: "field remaining (findData ''battery'' [?b]) = JNumber (Fin 60)"
    and h7: "field data_armed (findData ''state'' [?b]) = JUndefined
        \<or> field data_armed (findData ''state'' [?b]) = JNull"
    and h8: "field relative (findData ''altitude'' [?b]) = JUndefined
        \<and> field amsl (findData ''altitude'' [?b]) = JUndefined"
    and h9: "(case [?b] of [] \<Rightarrow> None | item # rest \<Rightarrow> sysid item) = None"
    unfolding b by (simp_all add: field_def fragment_def record_of_def)
  have h10: "(case findData ''state'' [?m] of None \<Rightarrow> None | Some d \<Rightarrow> mode d) = Some (Fin 5)
        \<and> modeMap (Fin 5) = Some ''LOITER''"
    and h11: "field data_armed (findData ''state'' [?m]) = JUndefined
        \<or> field data_armed (findData ''state'' [?m]) = JNull"
    unfolding m by (simp_all add: field_def fragment_def modeMap_def)
  have "armed (transformMavlinkToTelemetry noConversions 1000 [?s, ?a]) = True"
    and "alt (position (transformMavlinkToTelemetry noConversions 1000 [?s, ?a]))
        = JNumber (Fin 12.5)"
    and "droneId (transformMavlinkToTelemetry noConversions 1000 [?s, ?a]) = ''drone-7''"
    and "flightMode (transformMavlinkToTelemetry noConversions 1000 [?s, ?a]) = ''STABILIZE''"
    and "battery (transformMavlinkToTelemetry noConversions 1000 [?s, ?a]) = Fin 100"
    using fusion_defaults [of noConversions 1000 "[?s, ?a]" 0 "Fin 12.5" "[]" True NaN "[]" 7]
      h1 h2 h3 h4 h5 seven by simp_all
  moreover have "battery (transformMavlinkToTelemetry noConversions 1000 [?b]) = Fin 60"
    and "armed (transformMavlinkToTelemetry noConversions 1000 [?b]) = False"
    and "alt (position (transformMavlinkToTelemetry noConversions 1000 [?b])) = JNumber (Fin 0)"
    and "droneId (transformMavlinkToTelemetry noConversions 1000 [?b]) = ''drone-1''"
    using fusion_defaults [of noConversions 1000 "[?b]" 60 NaN "[]" True NaN "[]" 0]
      h6 h7 h8 h9 by simp_all
  moreover have "flightMode (transformMavlinkToTelemetry noConversions 1000 [?m]) = ''LOITER''"
    and "armed (transformMavlinkToTelemetry noConversions 1000 [?m]) = False"
    using fusion_defaults [of noConversions 1000 "[?m]" 0 NaN "[]" True "Fin 5" "''LOITER''" 0]
      h10 h11 by simp_all
  ultimately show ?thesis by simp
qed

text \<open>
  C4. The claim fails on an altitude fragment whose \<open>relative\<close> is \<open>null\<close>. The
  altitude is read with \<open>relativeAlt !== undefined\<close>, which \<open>null\<close> passes, so a
  \<open>relative\<close> of \<open>null\<close> beside \<open>amsl = 300\<close> is handed on as it is: the
  altitude of the snapshot is \<open>null\<close>, neither 300 nor the default 0, on every
  runtime and clock. Without the \<open>null\<close> the same fragment gives 300. Two lines
  further down \<open>armed\<close> and \<open>mode\<close> are read through \<open>??\<close>, for which
  \<open>null\<close> is a missing value: \<open>armed = null\<close> fuses to false and the flight mode
  stays \<open>STABILIZE\<close>. In the same way a boolean \<open>relative\<close> gives a boolean
  altitude, and a \<open>remaining\<close> that is not numeric, here the string \<open>n/a\<close>,
  gives the battery \<open>NaN\<close>.
\<close>

theorem fusion_null_altitude:
  "alt (position (transformMavlinkToTelemetry rt now
      [record_of ((fragment ''altitude'' 100)
         \<lparr> relative := JNull, amsl := JNumber (Fin 300) \<rparr>)])) = JNull
   \<and> alt (position (transformMavlinkToTelemetry rt now
      [record_of ((fragment ''altitude'' 100)\<lparr> amsl := JNumber (Fin 300) \<rparr>)]))
       = JNumber (Fin 300)
   \<and> armed (transformMavlinkToTelemetry rt now
      [record_of ((fragment ''state'' 100)\<lparr> data_armed := JNull \<rparr>)]) = False
   \<and> flightMode (transformMavlinkToTelemetry rt now
      [record_of ((fragment ''state'' 100)\<lparr> data_armed := JNull \<rparr>)]) = ''STABILIZE''
   \<and> alt (position (transformMavlinkToTelemetry rt now
      [record_of ((fragment ''altitude'' 100)\<lparr> relative := JBool True \<rparr>)])) = JBool True
   \<and> battery (transformMavlinkToTelemetry noConversions now
      [record_of ((fragment ''battery'' 100)\<lparr> remaining := JString ''n/a'' \<rparr>)]) = NaN"
  by (simp add: transform_position transform_armed transform_flightMode transform_battery
      findData_single fragment_def altitude_def field_def flightModeOf_def modeMap_def
      batteryPercent_def noConversions_def)

section \<open>The batch-scan adapter\<close>

lemma set_insertSorted: "set (insertSorted c x ys) = insert x (set ys)"
  by (induction ys) auto

lemma set_Array_sort: "set (Array_sort c xs) = set xs"
  by (induction xs) (simp_all add: set_insertSorted)

lemma newestFirst_insertSorted:
  "newestFirst ys \<Longrightarrow> newestFirst (insertSorted compareItems x ys)"
proof (induction ys)
  case Nil
  show ?case by (simp add: newestFirst_def)
next
  case (Cons y ys)
  show ?case
  proof (cases "compareItems x y \<le> 0")
    case True
    then have "effectiveTimestamp y \<le> effectiveTimestamp x"
      by (simp add: compareItems_def)
    moreover have "\<forall>z\<in>set ys. effectiveTimestamp z \<le> effectiveTimestamp y"
      using Cons.prems by (simp add: newestFirst_def)
    ultimately show ?thesis
      using Cons.prems True by (fastforce simp: newestFirst_def)
  next
    case False
    then have "effectiveTimestamp x \<le> effectiveTimestamp y"
      by (simp add: compareItems_def)
    moreover have "newestFirst (insertSorted compareItems x ys)"
      using Cons by (simp add: newestFirst_def)
    ultimately show ?thesis
      using Cons.prems False by (auto simp: newestFirst_def set_insertSorted)
  qed
qed

lemma newestFirst_Array_sort: "newestFirst (Array_sort compareItems xs)"
  by (induction xs) (simp_all add: newestFirst_insertSorted, simp add: newestFirst_def)

lemma find_newest:
  "newestFirst ys \<Longrightarrow> x \<in> set ys \<Longrightarrow> P x \<Longrightarrow>
   (\<forall>y\<in>set ys. P y \<and> y \<noteq> x \<longrightarrow> effectiveTimestamp y < effectiveTimestamp x) \<Longrightarrow>
   find P ys = Some x"
proof (induction ys)
  case Nil
  then show ?case by simp
next
  case (Cons z zs)
  show ?case
  proof (cases "P z")
    case True
    have "z = x"
    proof (rule ccontr)
      assume ne: "z \<noteq> x"
      then have "effectiveTimestamp z < effectiveTimestamp x"
        using Cons.prems(4) True by simp
      moreover have "x \<in> set zs"
        using Cons.prems(2) ne by auto
      then have "effectiveTimestamp x \<le> effectiveTimestamp z"
        using Cons.prems(1) by (simp add: newestFirst_def)
      ultimately show False by simp
    qed
    then show ?thesis using True by simp
  next
    case False
    then have "x \<noteq> z" using Cons.prems(3) by auto
    then have "x \<in> set zs" using Cons.prems(2) by auto
    moreover have "newestFirst zs" using Cons.prems(1) by (simp add: newestFirst_def)
    ultimately have "find P zs = Some x"
      using Cons.IH Cons.prems(3,4) by simp
    then show ?thesis using False by simp
  qed
qed

lemma map_of_keepLatest:
  "map_of (keepLatest m item) k =
     (case map_of m k of Some v \<Rightarrow> Some v
      | None \<Rightarrow> if itemKind item = k then Some item else None)"
  by (simp add: keepLatest_def has_def map_add_def split: option.splits)

lemma latestByType_first:
  "k = ''battery'' \<or> k = ''altitude'' \<or> k = ''state'' \<Longrightarrow>
   map_of (latestByType m xs) k =
     (case map_of m k of Some v \<Rightarrow> Some v | None \<Rightarrow> find (\<lambda>i. itemKind i = k) xs)"
proof (induction xs arbitrary: m)
  case Nil
  show ?case by (simp split: option.splits)
next
  case (Cons item rest)
  let ?m' = "keepLatest m item"
  show ?case
  proof (cases "hasMainTypes ?m'")
    case True
    then have "has ?m' k"
      using Cons.prems by (auto simp: hasMainTypes_def)
    then have "map_of ?m' k \<noteq> None" by (simp add: has_def)
    moreover have "latestByType m (item # rest) = ?m'"
      using True by simp
    ultimately show ?thesis
      by (auto simp: map_of_keepLatest split: option.splits if_splits)
  next
    case False
    then have "latestByType m (item # rest) = latestByType ?m' rest"
      by simp
    then have "map_of (latestByType m (item # rest)) k =
        (case map_of ?m' k of Some v \<Rightarrow> Some v | None \<Rightarrow> find (\<lambda>i. itemKind i = k) rest)"
      using Cons.IH [OF Cons.prems, of ?m'] by simp
    then show ?thesis
      by (simp add: map_of_keepLatest split: option.splits)
  qed
qed

lemma keyed_keepLatest: "keyed m \<Longrightarrow> keyed (keepLatest m item)"
  by (auto simp: keyed_def keepLatest_def has_def map_of_eq_None_iff)

lemma keyed_latestByType: "keyed m \<Longrightarrow> keyed (latestByType m xs)"
proof (induction xs arbitrary: m)
  case Nil
  then show ?case by simp
next
  case (Cons item rest)
  have k: "keyed (keepLatest m item)"
    using Cons.prems by (rule keyed_keepLatest)
  then have "keyed (latestByType (keepLatest m item) rest)" by (rule Cons.IH)
  then show ?case using k by simp
qed

lemma hasType_itemKind:
  assumes "hasType ''battery'' i"
  shows "itemKind i = ''battery''"
proof (cases "data i")
  case None
  then show ?thesis using assms by (simp add: hasType_def)
next
  case (Some d)
  then have "data_type d = Some ''battery''"
    using assms by (simp add: hasType_def)
  then show ?thesis using Some by (simp add: itemKind_def)
qed

lemma find_unique:
  "x \<in> set ys \<Longrightarrow> P x \<Longrightarrow> (\<forall>y\<in>set ys. P y \<longrightarrow> y = x) \<Longrightarrow> find P ys = Some x"
proof (induction ys)
  case Nil
  then show ?case by simp
next
  case (Cons z zs)
  have rest: "\<forall>y\<in>set zs. P y \<longrightarrow> y = x"
    using Cons.prems(3) by (meson list.set_intros(2))
  show ?case
  proof (cases "P z")
    case True
    then have "z = x" using Cons.prems(3) by (meson list.set_intros(1))
    then show ?thesis using True by simp
  next
    case False
    then have "x \<noteq> z" using Cons.prems(2) by blast
    then have "x \<in> set zs" using Cons.prems(1) by simp
    then have "find P zs = Some x" using Cons.prems(2) rest by (rule Cons.IH)
    then show ?thesis using False by simp
  qed
qed

lemma findData_values:
  assumes "keyed m" and "map_of m ''battery'' = Some b" and "hasType ''battery'' b"
  shows "find (hasType ''battery'') (map snd m) = Some b"
proof (rule find_unique)
  show "b \<in> set (map snd m)"
    using assms(2) by (force dest: map_of_SomeD)
  show "hasType ''battery'' b" by (rule assms(3))
  show "\<forall>y\<in>set (map snd m). hasType ''battery'' y \<longrightarrow> y = b"
  proof (intro ballI impI)
    fix y assume "y \<in> set (map snd m)" and "hasType ''battery'' y"
    then obtain k where e: "(k, y) \<in> set m" by auto
    then have "itemKind y = k"
      using assms(1) by (auto simp: keyed_def list_all_iff)
    then have "k = ''battery''"
      using \<open>hasType ''battery'' y\<close> by (simp add: hasType_itemKind)
    then have "map_of m ''battery'' = Some y"
      using e assms(1) by (simp add: keyed_def)
    then show "y = b" using assms(2) by simp
  qed
qed

lemma getLatest_two:
  "effectiveTimestamp a < effectiveTimestamp b \<Longrightarrow> itemKind a = itemKind b \<Longrightarrow>
   itemKind b \<noteq> [] \<Longrightarrow>
   getLatestTelemetry_dynamodb (Resolved \<lparr> Items = Some [a, b] \<rparr>) = Inr [b]"
  by (simp add: getLatestTelemetry_dynamodb_def scanItems_def compareItems_def keepLatest_def
      has_def hasMainTypes_def)

text \<open>
  C5, as amended. Let a fetched batch hold a battery fragment \<open>b2\<close> whose effective
  timestamp is greater than that of every other record of kind \<open>battery\<close> in the
  batch; with two battery fragments these are the timestamps \<open>T1 < T2\<close>. The
  effective timestamp is the first of \<open>payload.timestamp\<close> and the record-level
  timestamp that is not zero, else 0. Then \<open>getLatestTelemetry\<close> retains \<open>b2\<close>,
  the fusion reads its payload, and the fused battery is its \<open>remaining\<close> clamped to
  the range from 0 to 100.
\<close>

theorem most_recent_battery_wins:
  assumes "b2 \<in> set batch"
    and "data b2 = Some d2"
    and "data_type d2 = Some ''battery''"
    and "\<forall>i\<in>set batch. itemKind i = ''battery'' \<and> i \<noteq> b2
           \<longrightarrow> effectiveTimestamp i < effectiveTimestamp b2"
    and "getLatestTelemetry_dynamodb (Resolved \<lparr> Items = Some batch \<rparr>) = Inr items"
  shows "findData ''battery'' items = Some d2
    \<and> (remaining d2 = JNumber (Fin r2) \<longrightarrow>
         battery (transformMavlinkToTelemetry rt now items) = Fin (max 0 (min 100 r2)))"
proof -
  let ?sorted = "Array_sort compareItems batch"
  let ?m = "latestByType [] ?sorted"
  have ht: "hasType ''battery'' b2"
    using assms(2,3) by (simp add: hasType_def)
  have nonempty: "length batch > 0"
    using assms(1) by (cases batch) auto
  have items: "items = map snd ?m"
    using assms(5) nonempty
    by (simp add: getLatestTelemetry_dynamodb_def scanItems_def)
  have "find (\<lambda>i. itemKind i = ''battery'') ?sorted = Some b2"
  proof (rule find_newest)
    show "newestFirst ?sorted" by (rule newestFirst_Array_sort)
    show "b2 \<in> set ?sorted" using assms(1) by (simp add: set_Array_sort)
    show "itemKind b2 = ''battery''" using ht by (rule hasType_itemKind)
    show "\<forall>y\<in>set ?sorted. itemKind y = ''battery'' \<and> y \<noteq> b2
        \<longrightarrow> effectiveTimestamp y < effectiveTimestamp b2"
      using assms(4) by (simp add: set_Array_sort)
  qed
  then have first: "map_of ?m ''battery'' = Some b2"
    by (simp add: latestByType_first)
  have "keyed ?m"
    by (rule keyed_latestByType) (simp add: keyed_def)
  then have "find (hasType ''battery'') items = Some b2"
    unfolding items using first ht by (rule findData_values)
  then have fd: "findData ''battery'' items = Some d2"
    using assms(2) by (simp add: findData_def)
  then show ?thesis
    by (simp add: transformMavlinkToTelemetry_def Let_def batteryPercent_def field_def)
qed

text \<open>
  Two battery fragments with the timestamps 100 and 200 and the values 80 and 55: the
  adapter retains the second and the fused battery is 55.
\<close>

theorem most_recent_battery_wins_witness:
  "getLatestTelemetry_dynamodb (Resolved \<lparr> Items = Some
      [record_of ((fragment ''battery'' 100)\<lparr> remaining := JNumber (Fin 80) \<rparr>),
       record_of ((fragment ''battery'' 200)\<lparr> remaining := JNumber (Fin 55) \<rparr>)] \<rparr>)
     = Inr [record_of ((fragment ''battery'' 200)\<lparr> remaining := JNumber (Fin 55) \<rparr>)]
   \<and> battery (transformMavlinkToTelemetry noConversions 1000
        [record_of ((fragment ''battery'' 200)\<lparr> remaining := JNumber (Fin 55) \<rparr>)]) = Fin 55"
proof -
  let ?d1 = "(fragment ''battery'' 100)\<lparr> remaining := JNumber (Fin 80) \<rparr>"
  let ?d2 = "(fragment ''battery'' 200)\<lparr> remaining := JNumber (Fin 55) \<rparr>"
  let ?batch = "[record_of ?d1, record_of ?d2]"
  have t1: "effectiveTimestamp (record_of ?d1) = 100"
    and t2: "effectiveTimestamp (record_of ?d2) = 200"
    by (simp_all add: effectiveTimestamp_def record_of_def fragment_def)
  have k: "itemKind (record_of ?d1) = ''battery''" "itemKind (record_of ?d2) = ''battery''"
    by (simp_all add: itemKind_def record_of_def fragment_def)
  have got: "getLatestTelemetry_dynamodb (Resolved \<lparr> Items = Some ?batch \<rparr>) = Inr [record_of ?d2]"
    by (rule getLatest_two) (simp_all add: t1 t2 k)
  have h1: "record_of ?d2 \<in> set ?batch" by simp
  have h2: "data (record_of ?d2) = Some ?d2" by (simp add: record_of_def)
  have h3: "data_type ?d2 = Some ''battery''" by (simp add: fragment_def)
  have h4: "\<forall>i\<in>set ?batch. itemKind i = ''battery'' \<and> i \<noteq> record_of ?d2
      \<longrightarrow> effectiveTimestamp i < effectiveTimestamp (record_of ?d2)"
    using t1 t2 by simp
  have "remaining ?d2 = JNumber (Fin 55)" by simp
  then show ?thesis
    using got most_recent_battery_wins [OF h1 h2 h3 h4 got, of 55 noConversions 1000] by simp
qed

text \<open>
  The claim as stated fails in two ways. The newer fragment's \<open>remaining = -1\<close>
  is fused to 0. And a fragment whose \<open>payload.timestamp\<close> is 0 is ordered by its
  record-level timestamp, here 500, so it is retained in place of the fragment with the
  payload timestamp 100, and the fused battery is the older value 10.
\<close>

theorem most_recent_counterexample:
  "getLatestTelemetry_dynamodb (Resolved \<lparr> Items = Some
      [record_of ((fragment ''battery'' 100)\<lparr> remaining := JNumber (Fin 80) \<rparr>),
       record_of ((fragment ''battery'' 200)\<lparr> remaining := JNumber (Fin (- 1)) \<rparr>)] \<rparr>)
     = Inr [record_of ((fragment ''battery'' 200)\<lparr> remaining := JNumber (Fin (- 1)) \<rparr>)]
   \<and> battery (transformMavlinkToTelemetry noConversions 1000
        [record_of ((fragment ''battery'' 200)\<lparr> remaining := JNumber (Fin (- 1)) \<rparr>)]) = Fin 0
   \<and> getLatestTelemetry_dynamodb (Resolved \<lparr> Items = Some
      [(record_of ((fragment ''battery'' 0)\<lparr> remaining := JNumber (Fin 10) \<rparr>))
         \<lparr> item_timestamp := Some 500 \<rparr>,
       record_of ((fragment ''battery'' 100)\<lparr> remaining := JNumber (Fin 20) \<rparr>)] \<rparr>)
     = Inr [(record_of ((fragment ''battery'' 0)\<lparr> remaining := JNumber (Fin 10) \<rparr>))
         \<lparr> item_timestamp := Some 500 \<rparr>]
   \<and> battery (transformMavlinkToTelemetry noConversions 1000
        [(record_of ((fragment ''battery'' 0)\<lparr> remaining := JNumber (Fin 10) \<rparr>))
         \<lparr> item_timestamp := Some 500 \<rparr>]) = Fin 10"
proof -
  let ?d1 = "(fragment ''battery'' 100)\<lparr> remaining := JNumber (Fin 80) \<rparr>"
  let ?d2 = "(fragment ''battery'' 200)\<lparr> remaining := JNumber (Fin (- 1)) \<rparr>"
  let ?z = "(record_of ((fragment ''battery'' 0)\<lparr> remaining := JNumber (Fin 10) \<rparr>))
         \<lparr> item_timestamp := Some 500 \<rparr>"
  let ?h = "record_of ((fragment ''battery'' 100)\<lparr> remaining := JNumber (Fin 20) \<rparr>)"
  have "getLatestTelemetry_dynamodb (Resolved \<lparr> Items = Some [record_of ?d1, record_of ?d2] \<rparr>)
      = Inr [record_of ?d2]"
    by (rule getLatest_two)
      (simp_all add: effectiveTimestamp_def itemKind_def record_of_def fragment_def)
  moreover have "battery (transformMavlinkToTelemetry noConversions 1000 [record_of ?d2]) = Fin 0"
    by (simp add: transform_battery findData_single fragment_def batteryPercent_def field_def)
  moreover have "getLatestTelemetry_dynamodb (Resolved \<lparr> Items = Some [?z, ?h] \<rparr>) = Inr [?z]"
    by (simp add: getLatestTelemetry_dynamodb_def scanItems_def compareItems_def keepLatest_def
      has_def hasMainTypes_def effectiveTimestamp_def itemKind_def record_of_def fragment_def)
  moreover have "battery (transformMavlinkToTelemetry noConversions 1000 [?z]) = Fin 10"
    by (simp add: transform_battery findData_def hasType_def record_of_def fragment_def
        batteryPercent_def field_def)
  ultimately show ?thesis by blast
qed

section \<open>The adapters resolve\<close>

lemma getLatestTelemetry_api_resolves:
  "getLatestTelemetry_api fetched = Inr (case fetchTelemetry fetched of Inl e \<Rightarrow> None | Inr t \<Rightarrow> t)"
  by (simp add: getLatestTelemetry_api_def split: sum.splits)

lemma getLatestTelemetry_dynamodb_resolves:
  "getLatestTelemetry_dynamodb sent = Inr (case scanItems sent of Inl e \<Rightarrow> [] | Inr items \<Rightarrow> items)"
  by (simp add: getLatestTelemetry_dynamodb_def split: sum.splits)

text \<open>
  C6. Neither adapter rejects: \<open>getLatestTelemetry\<close> resolves on every outcome of the
  request. Whenever its \<open>try\<close> block throws, the batch-scan adapter resolves with the
  empty array and the HTTP adapter with \<open>null\<close>: on a transport failure (the request
  rejects), on a response that is not \<open>ok\<close>, on a body that does not parse
  (\<open>response.json()\<close> rejects), and on the body \<open>null\<close>.
\<close>

theorem adapters_never_throw:
  "(\<exists>items. getLatestTelemetry_dynamodb sent = Inr items)
   \<and> (\<exists>t. getLatestTelemetry_api fetched = Inr t)
   \<and> getLatestTelemetry_dynamodb (Rejected e) = Inr []
   \<and> getLatestTelemetry_api (Rejected e) = Inr None
   \<and> (\<not> ok response \<longrightarrow> getLatestTelemetry_api (Resolved response) = Inr None)
   \<and> (json response = Rejected e \<longrightarrow> getLatestTelemetry_api (Resolved response) = Inr None)
   \<and> (json response = Resolved NullBody
        \<longrightarrow> getLatestTelemetry_api (Resolved response) = Inr None)
   \<and> ((\<exists>err. scanItems sent = Inl err) \<longrightarrow> getLatestTelemetry_dynamodb sent = Inr [])
   \<and> ((\<exists>err. fetchTelemetry fetched = Inl err) \<longrightarrow> getLatestTelemetry_api fetched = Inr None)"
proof -
  have "\<exists>items. getLatestTelemetry_dynamodb sent = Inr items"
    by (simp add: getLatestTelemetry_dynamodb_resolves)
  moreover have "\<exists>t. getLatestTelemetry_api fetched = Inr t"
    by (simp add: getLatestTelemetry_api_resolves)
  moreover have "getLatestTelemetry_dynamodb (Rejected e) = Inr []"
    by (simp add: getLatestTelemetry_dynamodb_def scanItems_def)
  moreover have "getLatestTelemetry_api (Rejected e) = Inr None"
    by (simp add: getLatestTelemetry_api_def fetchTelemetry_def)
  moreover have "\<not> ok response \<longrightarrow> getLatestTelemetry_api (Resolved response) = Inr None"
    by (simp add: getLatestTelemetry_api_def fetchTelemetry_def)
  moreover have "json response = Rejected e
      \<longrightarrow> getLatestTelemetry_api (Resolved response) = Inr None"
    by (simp add: getLatestTelemetry_api_def fetchTelemetry_def)
  moreover have "json response = Resolved NullBody
      \<longrightarrow> getLatestTelemetry_api (Resolved response) = Inr None"
    by (simp add: getLatestTelemetry_api_def fetchTelemetry_def)
  moreover have "(\<exists>err. scanItems sent = Inl err) \<longrightarrow> getLatestTelemetry_dynamodb sent = Inr []"
    by (auto simp: getLatestTelemetry_dynamodb_def)
  moreover have "(\<exists>err. fetchTelemetry fetched = Inl err)
      \<longrightarrow> getLatestTelemetry_api fetched = Inr None"
    by (auto simp: getLatestTelemetry_api_def)
  ultimately show ?thesis by blast
qed

text \<open>
  A response with the status 500, a body that is not JSON, the body \<open>null\<close> and two
  failed requests.
\<close>

theorem adapters_never_throw_witness:
  "getLatestTelemetry_api (Resolved serverError) = Inr None
   \<and> getLatestTelemetry_api (Resolved (serverError\<lparr> ok := True, json := Rejected (Error ''Unexpected token'') \<rparr>)) = Inr None
   \<and> getLatestTelemetry_api (Resolved (serverError\<lparr> ok := True, json := Resolved NullBody \<rparr>)) = Inr None
   \<and> getLatestTelemetry_api (Rejected (Error ''Failed to fetch'')) = Inr None
   \<and> getLatestTelemetry_dynamodb (Rejected (Error ''Network error'')) = Inr []"
proof -
  let ?unparsed = "serverError\<lparr> ok := True, json := Rejected (Error ''Unexpected token'') \<rparr>"
  let ?null = "serverError\<lparr> ok := True, json := Resolved NullBody \<rparr>"
  have "\<not> ok serverError"
    and "json ?unparsed = Rejected (Error ''Unexpected token'')"
    and "json ?null = Resolved NullBody"
    and "fetchTelemetry (Rejected (Error ''Failed to fetch'')) = Inl (Error ''Failed to fetch'')"
    and "scanItems (Rejected (Error ''Network error'')) = Inl (Error ''Network error'')"
    by (simp_all add: serverError_def fetchTelemetry_def scanItems_def)
  then show ?thesis
    using adapters_never_throw [of _ _ _ serverError]
      adapters_never_throw [of _ _ "Error ''Unexpected token''" ?unparsed]
      adapters_never_throw [of _ _ _ ?null]
      adapters_never_throw [of "Rejected (Error ''Network error'')"
        "Rejected (Error ''Failed to fetch'')"]
    by blast
qed

section \<open>The polling hook\<close>

text \<open>
  C7. A poll cycle in which the adapter resolves with an empty result (\<open>null\<close> from
  the HTTP adapter, no record from the batch scan) leaves the published snapshot as it
  was; on a mounted hook it sets the connection state to connected and changes nothing
  but \<open>isConnected\<close> and \<open>error\<close>. (After the effect's cleanup a cycle that is
  still in flight returns before it touches any state.)
\<close>

theorem empty_poll_keeps_telemetry:
  "telemetry (pollTelemetry (Inr None) s) = telemetry s
   \<and> telemetry (pollTelemetry_dynamodb rt now (Inr []) s) = telemetry s
   \<and> (isMounted s \<longrightarrow>
        isConnected (pollTelemetry (Inr None) s)
        \<and> pollTelemetry (Inr None) s = s\<lparr> isConnected := True, error := None \<rparr>
        \<and> isConnected (pollTelemetry_dynamodb rt now (Inr []) s)
        \<and> pollTelemetry_dynamodb rt now (Inr []) s = s\<lparr> isConnected := True, error := None \<rparr>)"
  by (simp add: pollTelemetry_def pollTelemetry_dynamodb_def)

text \<open>
  A hook that has published a snapshot and then polls an empty result keeps the
  snapshot and stays connected.
\<close>

theorem empty_poll_keeps_telemetry_witness:
  "isMounted published
   \<and> telemetry (pollTelemetry (Inr None) published)
       = Some (transformMavlinkToTelemetry noConversions 1000 [])
   \<and> isConnected (pollTelemetry (Inr None) published)
   \<and> telemetry (pollTelemetry_dynamodb noConversions 2000 (Inr []) published)
       = Some (transformMavlinkToTelemetry noConversions 1000 [])
   \<and> isConnected (pollTelemetry_dynamodb noConversions 2000 (Inr []) published)"
proof -
  have m: "isMounted published" by (simp add: published_def)
  have "telemetry published = Some (transformMavlinkToTelemetry noConversions 1000 [])"
    by (simp add: published_def)
  then show ?thesis
    using m empty_poll_keeps_telemetry [of published noConversions 2000] by simp
qed



lemma pollCycle_connected:
  "isMounted s \<Longrightarrow> isMounted (pollCycle fetched s) \<and> isConnected (pollCycle fetched s)
     \<and> error (pollCycle fetched s) = None"
  by (simp add: pollCycle_def pollTelemetry_def getLatestTelemetry_api_resolves split: option.splits)

lemma pollCycles_connected:
  "isMounted s \<Longrightarrow> isConnected s \<Longrightarrow> error s = None \<Longrightarrow>
   isMounted (pollCycles fetches s) \<and> isConnected (pollCycles fetches s)
     \<and> error (pollCycles fetches s) = None"
proof (induction fetches arbitrary: s)
  case Nil
  then show ?case by simp
next
  case (Cons fetched rest)
  have "isMounted (pollCycle fetched s)" and "isConnected (pollCycle fetched s)"
    and "error (pollCycle fetched s) = None"
    using pollCycle_connected [OF Cons.prems(1)] by simp_all
  then show ?case using Cons.IH by simp
qed

text \<open>
  C10. In the hook as it is wired to the HTTP adapter the \<open>catch\<close> branch is never
  taken: the adapter never rejects. After one or more poll cycles of a mounted hook the
  connection state is connected and no error is recorded, whatever the requests did,
  also when every one of them failed.
\<close>

theorem catch_branch_unreachable:
  "getLatestTelemetry_api fetched \<noteq> Inl err
   \<and> (isMounted s \<and> fetches \<noteq> [] \<longrightarrow>
        isConnected (pollCycles fetches s) \<and> error (pollCycles fetches s) = None)"
proof (intro conjI impI)
  show "getLatestTelemetry_api fetched \<noteq> Inl err"
    by (simp add: getLatestTelemetry_api_resolves)
next
  assume a: "isMounted s \<and> fetches \<noteq> []"
  then obtain first rest where f: "fetches = first # rest"
    by (cases fetches) auto
  have "isMounted (pollCycle first s)" and "isConnected (pollCycle first s)"
    and "error (pollCycle first s) = None"
    using pollCycle_connected [of s first] a by simp_all
  then have "isConnected (pollCycles rest (pollCycle first s))
      \<and> error (pollCycles rest (pollCycle first s)) = None"
    using pollCycles_connected by blast
  then show "isConnected (pollCycles fetches s)" and "error (pollCycles fetches s) = None"
    using f by simp_all
qed

text \<open>
  Three failed requests in a row from the initial state: the hook reports a connection
  and no error, and has no snapshot.
\<close>

theorem catch_branch_unreachable_witness:
  "isMounted useDynamoDB
   \<and> isConnected (pollCycles [Rejected (Error ''Failed to fetch''), Resolved serverError,
        Rejected NonError] useDynamoDB)
   \<and> error (pollCycles [Rejected (Error ''Failed to fetch''), Resolved serverError,
        Rejected NonError] useDynamoDB) = None
   \<and> telemetry (pollCycles [Rejected (Error ''Failed to fetch''), Resolved serverError,
        Rejected NonError] useDynamoDB) = None"
proof -
  let ?fs = "[Rejected (Error ''Failed to fetch''), Resolved serverError, Rejected NonError]"
  have m: "isMounted useDynamoDB" by (simp add: useDynamoDB_def)
  have n: "?fs \<noteq> []" by simp
  have t: "telemetry (pollCycles ?fs useDynamoDB) = None"
    by (simp add: pollCycle_def pollTelemetry_def getLatestTelemetry_api_def
        fetchTelemetry_def serverError_def useDynamoDB_def)
  show ?thesis
    using m n t catch_branch_unreachable [of _ _ useDynamoDB ?fs] by blast
qed

end
